theory Spec2Isabelle
  imports Complex_Main "HOL-Library.Log_Nat"
begin

section \<open>Python values used by the trading core\<close>

subsection \<open>Double-precision arithmetic\<close>

text \<open>
  A Python \<^verbatim>\<open>float\<close> is an IEEE-754 binary64 number. A finite double is
  modelled by the rational number it denotes; every arithmetic operation computes the
  exact rational result and rounds it to the nearest number with a 53-bit significand,
  ties to even. The exponent range is not bounded here, so overflow to infinity,
  subnormal numbers and NaN are outside the model.
\<close>

definition pow2 :: "int \<Rightarrow> rat" where
  "pow2 e = (if 0 \<le> e then 2 ^ nat e else 1 / 2 ^ nat (- e))"

text \<open>The exponent \<open>\<lfloor>log\<^sub>2 x\<rfloor>\<close> of a positive rational.\<close>

definition ilog2 :: "rat \<Rightarrow> int" where
  "ilog2 x = (if 1 \<le> x then bitlen \<lfloor>x\<rfloor> - 1 else - bitlen (\<lceil>1 / x\<rceil> - 1))"

definition round_half_even :: "rat \<Rightarrow> int" where
  "round_half_even m =
     (let f = \<lfloor>m\<rfloor>; d = m - of_int f
      in if d < 1 / 2 then f else if 1 / 2 < d then f + 1 else if even f then f else f + 1)"

definition fl_round :: "rat \<Rightarrow> rat" where
  "fl_round x =
     (if x = 0 then 0
      else let e = ilog2 \<bar>x\<bar> - 52
           in sgn x * of_int (round_half_even (\<bar>x\<bar> / pow2 e)) * pow2 e)"

text \<open>
  \<^verbatim>\<open>a * b\<close>, \<^verbatim>\<open>a - b\<close> on floats, and \<^verbatim>\<open>p / q\<close> on two
  ints (true division, correctly rounded). A decimal literal such as \<^verbatim>\<open>0.001\<close>
  denotes the double nearest to it.
\<close>

definition fl_mul :: "rat \<Rightarrow> rat \<Rightarrow> rat" where
  "fl_mul a b = fl_round (a * b)"

definition fl_sub :: "rat \<Rightarrow> rat \<Rightarrow> rat" where
  "fl_sub a b = fl_round (a - b)"

definition int_truediv :: "int \<Rightarrow> int \<Rightarrow> rat" where
  "int_truediv p q = fl_round (of_int p / of_int q)"

definition float_literal :: "rat \<Rightarrow> rat" where
  "float_literal d = fl_round d"

text \<open>\<^verbatim>\<open>int(x)\<close> on a float truncates toward zero.\<close>

definition py_int_of_float :: "rat \<Rightarrow> int" where
  "py_int_of_float x = (if 0 \<le> x then \<lfloor>x\<rfloor> else \<lceil>x\<rceil>)"

subsection \<open>JSON values and \<^verbatim>\<open>int()\<close>\<close>

datatype json =
    JNull
  | JBool bool
  | JInt int
  | JFloat rat
  | JStr string
  | JArr "json list"
  | JObj "(string \<times> json) list"

text \<open>
  A quote is whatever \<^verbatim>\<open>resp.json()\<close> decoded: normally an object (a Python
  \<^verbatim>\<open>dict\<close>), but any JSON value can arrive. \<^verbatim>\<open>{}\<close> is \<open>JObj []\<close> and
  \<^verbatim>\<open>None\<close> is \<open>JNull\<close>.
\<close>

type_synonym quote = json

text \<open>The exceptions that leave a function of the core.\<close>

datatype py_exception = ValueError | AttributeError | DatabaseError | FieldError

text \<open>Truth value of a decoded value, as tested by \<^verbatim>\<open>not data\<close>.\<close>

fun py_truthy :: "json \<Rightarrow> bool" where
  "py_truthy JNull = False"
| "py_truthy (JBool b) = b"
| "py_truthy (JInt n) = (n \<noteq> 0)"
| "py_truthy (JFloat x) = (x \<noteq> 0)"
| "py_truthy (JStr s) = (s \<noteq> [])"
| "py_truthy (JArr xs) = (xs \<noteq> [])"
| "py_truthy (JObj kvs) = (kvs \<noteq> [])"

fun starts_with :: "string \<Rightarrow> string \<Rightarrow> bool" where
  "starts_with [] s = True"
| "starts_with (c # cs) [] = False"
| "starts_with (c # cs) (d # ds) = (c = d \<and> starts_with cs ds)"

fun has_substring :: "string \<Rightarrow> string \<Rightarrow> bool" where
  "has_substring k [] = (k = [])"
| "has_substring k (c # cs) = (starts_with k (c # cs) \<or> has_substring k cs)"

text \<open>
  The membership test \<^verbatim>\<open>k in data\<close> for a string \<open>k\<close>: a key of a dict, an
  element of a list, a substring of a string; on \<^verbatim>\<open>None\<close>, a bool or a number
  it raises \<^verbatim>\<open>TypeError\<close>, which is \<open>None\<close> here.
\<close>

fun py_contains :: "string \<Rightarrow> json \<Rightarrow> bool option" where
  "py_contains k (JObj kvs) = Some (map_of kvs k \<noteq> None)"
| "py_contains k (JArr xs) = Some (JStr k \<in> set xs)"
| "py_contains k (JStr s) = Some (has_substring k s)"
| "py_contains k v = None"

text \<open>
  The characters that \<^verbatim>\<open>int()\<close> drops around a number, among the code points
  below 256.
\<close>

definition is_space :: "char \<Rightarrow> bool" where
  "is_space c = (of_char c \<in> {9, 10, 11, 12, 13, 32, 133, 160 :: nat})"

definition is_digit :: "char \<Rightarrow> bool" where
  "is_digit c = (48 \<le> (of_char c :: nat) \<and> (of_char c :: nat) \<le> 57)"

definition digit_val :: "char \<Rightarrow> int" where
  "digit_val c = of_char c - 48"

definition strip :: "string \<Rightarrow> string" where
  "strip s = rev (dropWhile is_space (rev (dropWhile is_space s)))"

text \<open>
  The digits after the first one: decimal digits, where a single underscore may stand
  between two digits.
\<close>

fun digits_value :: "int \<Rightarrow> string \<Rightarrow> int option" where
  "digits_value acc [] = Some acc"
| "digits_value acc [c] =
     (if is_digit c then Some (10 * acc + digit_val c) else None)"
| "digits_value acc (c # d # cs) =
     (if is_digit c then digits_value (10 * acc + digit_val c) (d # cs)
      else if c = CHR ''_'' \<and> is_digit d then digits_value (10 * acc + digit_val d) cs
      else None)"

text \<open>
  \<^verbatim>\<open>int(s)\<close> on a string: surrounding whitespace is dropped, one sign is allowed,
  then decimal digits. \<open>None\<close> stands for the \<^verbatim>\<open>ValueError\<close>.
\<close>

definition py_int_str :: "string \<Rightarrow> int option" where
  "py_int_str s =
     (case strip s of
        [] \<Rightarrow> None
      | c # cs \<Rightarrow>
          (let neg = (c = CHR ''-'');
               ds = (if c = CHR ''-'' \<or> c = CHR ''+'' then cs else c # cs)
           in case ds of
                [] \<Rightarrow> None
              | d # r \<Rightarrow>
                  if is_digit d
                  then map_option (\<lambda>n. if neg then - n else n)
                         (digits_value (digit_val d) r)
                  else None))"

text \<open>
  \<^verbatim>\<open>int(v)\<close> on a decoded JSON value, or on \<^verbatim>\<open>None\<close> when the key is
  missing (\<^verbatim>\<open>dict.get\<close>). \<open>None\<close> stands for the \<^verbatim>\<open>TypeError\<close> or
  \<^verbatim>\<open>ValueError\<close> raised.
\<close>

fun py_int :: "json option \<Rightarrow> int option" where
  "py_int None = None"
| "py_int (Some JNull) = None"
| "py_int (Some (JBool b)) = Some (if b then 1 else 0)"
| "py_int (Some (JInt n)) = Some n"
| "py_int (Some (JFloat x)) = Some (py_int_of_float x)"
| "py_int (Some (JStr s)) = py_int_str s"
| "py_int (Some (JArr xs)) = None"
| "py_int (Some (JObj kvs)) = None"

section \<open>Observable effects\<close>

text \<open>
  The effects of the core on the outside world, in the order they happen: every
  \<^verbatim>\<open>asyncio.sleep\<close>, every request to the aggregator, every call of the buy and
  sell operations by the cycle, and every transfer submitted to the ledger. A key pair
  is identified by the string form of its public key.
\<close>

type_synonym keypair = string

datatype event =
    Sleep int
  | QuoteRequest string string int int
  | SwapRequest keypair quote
  | BuyCall string rat
  | SellCall string int
  | SendTransaction keypair keypair int

fun is_quote_request :: "event \<Rightarrow> bool" where
  "is_quote_request (QuoteRequest input_mint output_mint amount bps) = True"
| "is_quote_request e = False"

fun is_buy_call :: "event \<Rightarrow> bool" where
  "is_buy_call (BuyCall token amount) = True"
| "is_buy_call e = False"

fun is_sell_call :: "event \<Rightarrow> bool" where
  "is_sell_call (SellCall token amount) = True"
| "is_sell_call e = False"

fun is_transfer :: "event \<Rightarrow> bool" where
  "is_transfer (SendTransaction src dst lamports) = True"
| "is_transfer e = False"

text \<open>A network, or any other input, that answers the same every time.\<close>

definition always :: "'a \<Rightarrow> 'b \<Rightarrow> 'a" where
  "always r k = r"

section \<open>Swap client (\<^verbatim>\<open>jupiter_integration.py\<close>)\<close>

definition DEFAULT_SLIPPAGE :: rat where
  "DEFAULT_SLIPPAGE = 20"

definition SOL_MINT :: string where
  "SOL_MINT = ''So11111111111111111111111111111111111111112''"

text \<open>
  What one \<^verbatim>\<open>session.get\<close> gives back: either the request raises (timeout,
  connection failure), or a response arrives with a status, possibly a
  \<^verbatim>\<open>Retry-After\<close> header, and a body. \<^verbatim>\<open>resp.json()\<close> raises on a body
  that is not JSON and otherwise gives the decoded value, \<^verbatim>\<open>None\<close> for an empty
  body.
\<close>

datatype json_body = Undecodable | Decoded json

record http_response =
  status :: int
  retry_after :: "string option"
  decoded :: json_body

datatype reply = Raised | Response http_response

text \<open>
  The body of the \<^verbatim>\<open>try\<close> block for one attempt: return a value, sleep the
  rate-limit delay and retry, or raise into the \<^verbatim>\<open>except\<close> branch.
  \<^verbatim>\<open>resp.json()\<close> is awaited before the status is looked at,
  \<^verbatim>\<open>int(resp.headers.get("Retry-After", 5))\<close> raises on a header that is not an
  integer, and \<^verbatim>\<open>"routePlan" not in data\<close> raises on a number or
  \<^verbatim>\<open>True\<close>.
\<close>

datatype attempt_result = Return quote | RateLimited int | Excepted

definition rate_limited :: "string option \<Rightarrow> attempt_result" where
  "rate_limited header =
     (case header of
        None \<Rightarrow> RateLimited 5
      | Some h \<Rightarrow> (case py_int_str h of None \<Rightarrow> Excepted | Some d \<Rightarrow> RateLimited d))"

definition quote_attempt :: "reply \<Rightarrow> attempt_result" where
  "quote_attempt r =
     (case r of
        Raised \<Rightarrow> Excepted
      | Response resp \<Rightarrow>
          (case decoded resp of
             Undecodable \<Rightarrow> Excepted
           | Decoded data \<Rightarrow>
               if status resp = 429 then rate_limited (retry_after resp)
               else if status resp \<noteq> 200 then Return (JObj [])
               else if \<not> py_truthy data then Return (JObj [])
               else (case py_contains ''routePlan'' data of
                       None \<Rightarrow> Excepted
                     | Some present \<Rightarrow> if present then Return data else Return (JObj []))))"

text \<open>
  The \<^verbatim>\<open>while attempt < max_retries\<close> loop. The network is a function from the
  attempt number to the reply of that attempt: each pass of the loop sends one request
  and, unless it returns, adds one to \<^verbatim>\<open>attempt\<close>.
\<close>

function quote_loop :: "(nat \<Rightarrow> reply) \<Rightarrow> event \<Rightarrow> int \<Rightarrow> nat \<Rightarrow> quote \<times> event list" where
  "quote_loop net req max_retries attempt =
     (if int attempt < max_retries
      then (case quote_attempt (net attempt) of
              Return q \<Rightarrow> (q, [req])
            | RateLimited d \<Rightarrow>
                (let (q, evs) = quote_loop net req max_retries (Suc attempt)
                 in (q, req # Sleep d # evs))
            | Excepted \<Rightarrow>
                (let (q, evs) = quote_loop net req max_retries (Suc attempt)
                 in (q, req # Sleep (2 ^ attempt) # evs)))
      else (JObj [], []))"
  by pat_completeness auto
termination
  by (relation "measure (\<lambda>(net, req, max_retries, attempt). nat (max_retries - int attempt))") auto

declare quote_loop.simps [simp del]

definition jupiter_get_quote ::
  "(nat \<Rightarrow> reply) \<Rightarrow> string \<Rightarrow> string \<Rightarrow> int \<Rightarrow> rat \<Rightarrow> int \<Rightarrow> quote \<times> event list" where
  "jupiter_get_quote net input_mint output_mint amount slippage max_retries =
     quote_loop net
       (QuoteRequest input_mint output_mint amount (py_int_of_float (fl_mul slippage 100)))
       max_retries 0"

text \<open>
  \<^verbatim>\<open>jupiter_swap\<close> posts the quote to the execute endpoint, signs the returned
  transaction and submits it; it catches every exception and returns the signature or
  \<^verbatim>\<open>None\<close>. Its outcome is an input from the environment here; a signature is
  tested for truth by \<^verbatim>\<open>if tx_sig\<close>.
\<close>

record swap_env =
  quote_net :: "nat \<Rightarrow> reply"
  swap_result :: "string option"

definition jupiter_swap :: "swap_env \<Rightarrow> keypair \<Rightarrow> quote \<Rightarrow> string option \<times> event list" where
  "jupiter_swap env wallet_kp q = (swap_result env, [SwapRequest wallet_kp q])"

definition truthy_sig :: "string option \<Rightarrow> bool" where
  "truthy_sig tx_sig = (case tx_sig of None \<Rightarrow> False | Some sg \<Rightarrow> sg \<noteq> [])"

definition to_lamports :: "rat \<Rightarrow> int" where
  "to_lamports amount_sol = py_int_of_float (fl_mul amount_sol 1000000000)"

text \<open>
  \<^verbatim>\<open>int(quote.get("outAmount"))\<close> on a dict, with the fallback to 0 of the
  \<^verbatim>\<open>except\<close> branch.
\<close>

definition parse_out_amount :: "(string \<times> json) list \<Rightarrow> int" where
  "parse_out_amount q = (case py_int (map_of q ''outAmount'') of None \<Rightarrow> 0 | Some n \<Rightarrow> n)"

text \<open>
  \<^verbatim>\<open>buy_token_jupiter\<close>. \<^verbatim>\<open>quote.get\<close> stands outside every
  \<^verbatim>\<open>try\<close>: on a quote that is not a dict it raises \<^verbatim>\<open>AttributeError\<close>
  out of the function. The \<^verbatim>\<open>OverflowError\<close> of \<^verbatim>\<open>int\<close> on an infinite
  product needs an amount beyond the exponent range, which the doubles here do not bound.
\<close>

definition buy_token_jupiter ::
  "swap_env \<Rightarrow> keypair \<Rightarrow> string \<Rightarrow> rat
     \<Rightarrow> (py_exception + (string \<times> int) option) \<times> event list" where
  "buy_token_jupiter env wallet_kp token_address amount_sol =
     (let lamports = to_lamports amount_sol
      in if lamports < 100000 then (Inr None, [])
         else (let (q, evs) = jupiter_get_quote (quote_net env) SOL_MINT token_address
                                lamports DEFAULT_SLIPPAGE 5
               in if \<not> py_truthy q then (Inr None, evs)
                  else (case q of
                          JObj kvs \<Rightarrow>
                            (let out_amount = parse_out_amount kvs;
                                 (tx_sig, sevs) = jupiter_swap env wallet_kp q
                             in case tx_sig of
                                  None \<Rightarrow> (Inr None, evs @ sevs)
                                | Some sg \<Rightarrow>
                                    if truthy_sig tx_sig
                                    then (Inr (Some (sg, out_amount)), evs @ sevs)
                                    else (Inr None, evs @ sevs))
                        | _ \<Rightarrow> (Inl AttributeError, evs))))"

definition sell_token_jupiter ::
  "swap_env \<Rightarrow> keypair \<Rightarrow> string \<Rightarrow> int \<Rightarrow> string option \<times> event list" where
  "sell_token_jupiter env wallet_kp token_mint amount =
     (let (q, evs) = jupiter_get_quote (quote_net env) token_mint SOL_MINT
                       amount DEFAULT_SLIPPAGE 5
      in if \<not> py_truthy q then (None, evs)
         else (let (tx_sig, sevs) = jupiter_swap env wallet_kp q
               in (tx_sig, evs @ sevs)))"

section \<open>Cycle controller (\<^verbatim>\<open>trading.py\<close>)\<close>

text \<open>
  The process-wide dictionaries of \<^verbatim>\<open>config.py\<close>: \<^verbatim>\<open>active_trading\<close>
  by user id and \<^verbatim>\<open>agent_last_buy\<close> by the key \<^verbatim>\<open>"{user_id}_{agent_name}"\<close>.
\<close>

record store =
  active_trading :: "string \<rightharpoonup> bool"
  agent_last_buy :: "string \<rightharpoonup> int"

text \<open>
  The row of \<^verbatim>\<open>agent_settings\<close> read by \<^verbatim>\<open>get_agent_settings\<close>, with the
  column types of the table: \<^verbatim>\<open>fixed_buy FLOAT\<close>, \<^verbatim>\<open>fixed_sell_delay INT\<close>,
  \<^verbatim>\<open>fixed_rest_delay INT\<close>, \<^verbatim>\<open>sell_enabled BOOLEAN\<close>. Both return paths of
  \<^verbatim>\<open>get_agent_settings\<close> carry all four keys, so the defaults of
  \<^verbatim>\<open>agent_settings.get\<close> are never used.
\<close>

record agent_settings =
  fixed_buy :: rat
  fixed_sell_delay :: int
  fixed_rest_delay :: int
  sell_enabled :: bool

text \<open>
  \<^verbatim>\<open>get_sol_balance\<close>: the lamports reported by the ledger divided by
  \<open>10\<^sup>9\<close>, or \<open>0.0\<close> when the call raises.
\<close>

definition get_sol_balance :: "int option \<Rightarrow> rat" where
  "get_sol_balance resp =
     (case resp of None \<Rightarrow> 0 | Some v \<Rightarrow> int_truediv v 1000000000)"

text \<open>
  What one pass of the loop receives from outside: the settings row, or the exception
  with which \<^verbatim>\<open>get_agent_settings\<close> fails on the database, the balance reply,
  the network seen by the buy and by the sell, and what the other tasks of the process
  do to the shared dictionaries while this task is suspended. \<open>others env k\<close> is
  applied at the \<open>k\<close>-th \<^verbatim>\<open>await\<close> of the loop body, in the order of the source:
  0 settings, 1 the sleep of the \<^verbatim>\<open>fixed_buy\<close> check, 2 balance, 3 the sleep of
  the balance check, 4 buy, 5 the sleep after a failed buy, 6 the sell delay, 7 sell,
  8 the rest delay. Between two awaits the task runs without interruption.
\<close>

record cycle_env =
  settings_reply :: "py_exception + agent_settings"
  balance_reply :: "int option"
  buy_env :: swap_env
  sell_env :: swap_env
  others :: "nat \<Rightarrow> store \<Rightarrow> store"

definition is_active :: "store \<Rightarrow> string \<Rightarrow> bool" where
  "is_active s user_id = (case active_trading s user_id of None \<Rightarrow> False | Some b \<Rightarrow> b)"

definition stored_amount_of :: "store \<Rightarrow> string \<Rightarrow> int" where
  "stored_amount_of s agent_key = (case agent_last_buy s agent_key of None \<Rightarrow> 0 | Some a \<Rightarrow> a)"

definition set_last_buy :: "string \<Rightarrow> int \<Rightarrow> store \<Rightarrow> store" where
  "set_last_buy agent_key a s = s\<lparr>agent_last_buy := (agent_last_buy s)(agent_key \<mapsto> a)\<rparr>"

definition rest_seconds :: "agent_settings \<Rightarrow> int" where
  "rest_seconds st = (if fixed_rest_delay st > 0 then fixed_rest_delay st else 1)"

text \<open>The \<^verbatim>\<open>if sell_enabled\<close> block, entered after a successful buy.\<close>

definition sell_block ::
  "keypair \<Rightarrow> string \<Rightarrow> string \<Rightarrow> agent_settings \<Rightarrow> cycle_env \<Rightarrow> store
     \<Rightarrow> store \<times> event list" where
  "sell_block wallet_kp token_address agent_key st env s =
     (if sell_enabled st
      then (let s5 = others env 6 s;
                stored_amount = stored_amount_of s5 agent_key
            in if stored_amount > 0
               then (let (tx_sell, evs) =
                           sell_token_jupiter (sell_env env) wallet_kp token_address stored_amount;
                         s6 = others env 7 s5;
                         pre = Sleep (fixed_sell_delay st)
                                 # SellCall token_address stored_amount # evs
                     in if truthy_sig tx_sell then (set_last_buy agent_key 0 s6, pre)
                        else (s6, pre))
               else (s5, [Sleep (fixed_sell_delay st)]))
      else (s, []))"

text \<open>
  One pass of the body of \<^verbatim>\<open>while active_trading.get(user_id, False)\<close>. The
  body has no \<^verbatim>\<open>try\<close>: an exception of \<^verbatim>\<open>get_agent_settings\<close> or of
  \<^verbatim>\<open>buy_token_jupiter\<close> ends the pass where it is raised and leaves the
  function. The result is the exception, if any, the shared store and the effects.
\<close>

definition cycle_body ::
  "string \<Rightarrow> keypair \<Rightarrow> string \<Rightarrow> string \<Rightarrow> cycle_env \<Rightarrow> store
     \<Rightarrow> py_exception option \<times> store \<times> event list" where
  "cycle_body user_id wallet_kp token_address agent_name env s =
     (let agent_key = user_id @ ''_'' @ agent_name;
          s1 = others env 0 s
      in case settings_reply env of
           Inl e \<Rightarrow> (Some e, s1, [])
         | Inr st \<Rightarrow>
             if fixed_buy st \<le> 0 then (None, others env 1 s1, [Sleep 5])
             else (let sol_balance = get_sol_balance (balance_reply env);
                       s2 = others env 2 s1
                   in if sol_balance < fixed_buy st then (None, others env 3 s2, [Sleep 5])
                      else (let (buy_result, bevs) =
                                  buy_token_jupiter (buy_env env) wallet_kp token_address
                                    (fixed_buy st);
                                s3 = others env 4 s2;
                                call = BuyCall token_address (fixed_buy st)
                            in case buy_result of
                                 Inl e \<Rightarrow> (Some e, s3, call # bevs)
                               | Inr None \<Rightarrow> (None, others env 5 s3, call # bevs @ [Sleep 1])
                               | Inr (Some (tx_buy, out_amount)) \<Rightarrow>
                                   (let s4 = set_last_buy agent_key out_amount s3;
                                        (s7, sevs) =
                                          sell_block wallet_kp token_address agent_key st env s4
                                    in (None, others env 8 s7,
                                        call # bevs @ sevs @ [Sleep (rest_seconds st)])))))"

text \<open>
  The loop itself. It never ends while the flag stays set and nothing raises, so it is
  run against a finite list of passes: \<open>Exited\<close> when the flag was found unset at the
  head of the loop, \<open>Crashed e\<close> when a pass raised \<open>e\<close>, \<open>Running\<close> when the
  list is used up and the flag is still set.
\<close>

datatype run_status = Exited | Running | Crashed py_exception

fun run_wallet_cycle ::
  "string \<Rightarrow> keypair \<Rightarrow> string \<Rightarrow> string \<Rightarrow> cycle_env list \<Rightarrow> store
     \<Rightarrow> run_status \<times> store \<times> event list" where
  "run_wallet_cycle user_id wallet_kp token_address agent_name [] s =
     (if is_active s user_id then (Running, s, []) else (Exited, s, []))"
| "run_wallet_cycle user_id wallet_kp token_address agent_name (env # envs) s =
     (if is_active s user_id
      then (let (raised, s', evs) = cycle_body user_id wallet_kp token_address agent_name env s
            in case raised of
                 Some e \<Rightarrow> (Crashed e, s', evs)
               | None \<Rightarrow>
                   (let (r, s'', evs') =
                          run_wallet_cycle user_id wallet_kp token_address agent_name envs s'
                    in (r, s'', evs @ evs')))
      else (Exited, s, []))"

section \<open>Fund transfer (\<^verbatim>\<open>load_withdrawal.py\<close>)\<close>

record wallet =
  wallet_index :: int
  base58_key :: string
  is_root :: bool
  is_agent :: bool
  agent_name :: "string option"

text \<open>
  The ledger and key library as seen by the transfers: \<open>decode_key\<close> is
  \<^verbatim>\<open>Keypair.from_secret_key(base58.b58decode(k))\<close>, \<open>None\<close> when it raises;
  \<open>balance_of\<close> is the reply to \<^verbatim>\<open>get_balance\<close> in lamports, \<open>None\<close> when
  the call raises; \<open>send_ok w\<close> tells whether \<^verbatim>\<open>send_transaction\<close> for the transfer
  of agent wallet \<open>w\<close> returns or raises.
\<close>

record ledger_env =
  decode_key :: "string \<Rightarrow> keypair option"
  balance_of :: "keypair \<Rightarrow> int option"
  send_ok :: "wallet \<Rightarrow> bool"

text \<open>
  How an f-string prints \<^verbatim>\<open>agent['agent_name']\<close>. Every row carries the key
  \<^verbatim>\<open>agent_name\<close>, so the default of \<^verbatim>\<open>agent.get('agent_name', 'Unknown')\<close>
  is never used and a \<^verbatim>\<open>NULL\<close> name prints as \<^verbatim>\<open>None\<close>.
\<close>

definition show_name :: "string option \<Rightarrow> string" where
  "show_name n = (case n of None \<Rightarrow> ''None'' | Some a \<Rightarrow> a)"

fun join_lines :: "string list \<Rightarrow> string" where
  "join_lines [] = []"
| "join_lines [l] = l"
| "join_lines (l # m # ls) = l @ [CHR 0x0A] @ join_lines (m # ls)"

text \<open>
  The loop of \<^verbatim>\<open>load_all_agents\<close>. The agent's key is decoded and the transfer
  is built before the \<^verbatim>\<open>try\<close>, so a key that does not decode, and an amount
  that the 64-bit field of the transfer layout refuses, raise out of the function.
\<close>

fun load_loop ::
  "ledger_env \<Rightarrow> keypair \<Rightarrow> rat \<Rightarrow> wallet list \<Rightarrow> string list
     \<Rightarrow> (py_exception + string list) \<times> event list" where
  "load_loop env root_key amount [] responses = (Inr responses, [])"
| "load_loop env root_key amount (agent # agents) responses =
     (case decode_key env (base58_key agent) of
        None \<Rightarrow> (Inl ValueError, [])
      | Some agent_key \<Rightarrow>
          (let lamports = to_lamports amount
           in if lamports < 0 \<or> 18446744073709551615 < lamports then (Inl FieldError, [])
              else (let line = ''Agent '' @ show_name (agent_name agent)
                                 @ (if send_ok env agent then '': Success'' else '': Failed'');
                        (r, evs) = load_loop env root_key amount agents (responses @ [line])
                    in (r, SendTransaction root_key agent_key lamports # evs))))"

definition load_all_agents ::
  "ledger_env \<Rightarrow> wallet list \<Rightarrow> rat \<Rightarrow> (py_exception + string) \<times> event list" where
  "load_all_agents env wallets amount =
     (let agents = filter is_agent wallets
      in case find is_root wallets of
           None \<Rightarrow> (Inr ''Missing root wallet or agent wallets.'', [])
         | Some root_wallet \<Rightarrow>
             if agents = [] then (Inr ''Missing root wallet or agent wallets.'', [])
             else (case decode_key env (base58_key root_wallet) of
                     None \<Rightarrow> (Inl ValueError, [])
                   | Some root_key \<Rightarrow>
                       (case load_loop env root_key amount agents [] of
                          (Inl e, evs) \<Rightarrow> (Inl e, evs)
                        | (Inr responses, evs) \<Rightarrow> (Inr (join_lines responses), evs))))"

text \<open>\<^verbatim>\<open>MIN_BALANCE = 0.001\<close> and the \<^verbatim>\<open>:.6f\<close> format of a non-negative float.\<close>

definition MIN_BALANCE :: rat where
  "MIN_BALANCE = float_literal (1 / 1000)"

function decimal :: "int \<Rightarrow> string" where
  "decimal n =
     (if n < 10 then [char_of (48 + n)] else decimal (n div 10) @ [char_of (48 + n mod 10)])"
  by pat_completeness auto
termination
  by (relation "measure nat") auto

declare decimal.simps [simp del]

definition format_6f :: "rat \<Rightarrow> string" where
  "format_6f x =
     (let n = round_half_even (x * 1000000);
          frac = decimal (n mod 1000000)
      in decimal (n div 1000000) @ ''.'' @ replicate (6 - length frac) (CHR ''0'') @ frac)"

text \<open>
  The body of the loop of \<^verbatim>\<open>collect_agents_to_root\<close> for one agent: the line
  appended to \<^verbatim>\<open>results\<close> and the transfers submitted. The balance is the
  64-bit amount reported by the ledger, so the amount to transfer, which is below it,
  fits the transfer layout.
\<close>

definition collect_agent :: "ledger_env \<Rightarrow> keypair \<Rightarrow> wallet \<Rightarrow> string \<times> event list" where
  "collect_agent env root_key agent =
     (case decode_key env (base58_key agent) of
        None \<Rightarrow>
          (''Agent '' @ show_name (agent_name agent) @ '': Key decode error'', [])
      | Some agent_key \<Rightarrow>
          (let balance = get_sol_balance (balance_of env agent_key)
           in if balance \<le> MIN_BALANCE
              then (''Agent '' @ show_name (agent_name agent) @ '': Insufficient balance'', [])
              else (let lamports = to_lamports (fl_sub balance MIN_BALANCE);
                        tx = SendTransaction agent_key root_key lamports
                    in if send_ok env agent
                       then (''Agent '' @ show_name (agent_name agent) @ '': ''
                               @ format_6f (int_truediv lamports 1000000000) @ '' SOL'', [tx])
                       else (''Agent '' @ show_name (agent_name agent) @ '': Transfer failed'',
                             [tx]))))"

fun collect_loop :: "ledger_env \<Rightarrow> keypair \<Rightarrow> wallet list \<Rightarrow> string list \<times> event list" where
  "collect_loop env root_key [] = ([], [])"
| "collect_loop env root_key (agent # agents) =
     (let (line, evs) = collect_agent env root_key agent;
          (results, evs') = collect_loop env root_key agents
      in (line # results, evs @ evs'))"

definition collect_agents_to_root :: "ledger_env \<Rightarrow> wallet list \<Rightarrow> string \<times> event list" where
  "collect_agents_to_root env wallets =
     (let agents = filter is_agent wallets
      in case find is_root wallets of
           None \<Rightarrow> (''No Root Wallet found.'', [])
         | Some root_wallet \<Rightarrow>
             if agents = [] then (''No Agent Wallets found.'', [])
             else (case decode_key env (base58_key root_wallet) of
                     None \<Rightarrow> (''Error decoding Root Wallet key.'', [])
                   | Some root_key \<Rightarrow>
                       (let (results, evs) = collect_loop env root_key agents
                        in (join_lines results, evs))))"

section \<open>Vocabulary of the statements\<close>

text \<open>A pass that sleeps \<open>d\<close> seconds and goes on with the rest of the loop.\<close>

definition retried :: "quote \<times> event list \<Rightarrow> event \<Rightarrow> int \<Rightarrow> quote \<times> event list" where
  "retried rest req d = (fst rest, req # Sleep d # snd rest)"



text \<open>
  A key library for which exactly one stored key fails to decode; every other string
  decodes to a key pair named by itself.
\<close>

definition decode_unless :: "string \<Rightarrow> string \<Rightarrow> keypair option" where
  "decode_unless bad k = (if k = bad then None else Some k)"

section \<open>Properties of the swap client\<close>

subsection \<open>The retry loop of \<^verbatim>\<open>jupiter_get_quote\<close>\<close>

lemma quote_loop_done: "max_retries \<le> int k \<Longrightarrow> quote_loop net req max_retries k = (JObj [], [])"
  by (simp add: quote_loop.simps [of net req max_retries k])

lemma quote_loop_return:
  "int k < max_retries \<Longrightarrow> quote_attempt (net k) = Return q \<Longrightarrow>
   quote_loop net req max_retries k = (q, [req])"
  by (simp add: quote_loop.simps [of net req max_retries k])

lemma quote_loop_rate_limited:
  "int k < max_retries \<Longrightarrow> quote_attempt (net k) = RateLimited d \<Longrightarrow>
   quote_loop net req max_retries k =
     (fst (quote_loop net req max_retries (Suc k)),
      req # Sleep d # snd (quote_loop net req max_retries (Suc k)))"
  by (simp add: quote_loop.simps [of net req max_retries k] split: prod.splits)

lemma quote_loop_excepted:
  "int k < max_retries \<Longrightarrow> quote_attempt (net k) = Excepted \<Longrightarrow>
   quote_loop net req max_retries k =
     (fst (quote_loop net req max_retries (Suc k)),
      req # Sleep (2 ^ k) # snd (quote_loop net req max_retries (Suc k)))"
  by (simp add: quote_loop.simps [of net req max_retries k] split: prod.splits)

lemma quote_loop_requests_le:
  "is_quote_request req \<Longrightarrow>
   int (length (filter is_quote_request (snd (quote_loop net req max_retries k))))
     \<le> max 0 (max_retries - int k)"
proof (induction net req max_retries k rule: quote_loop.induct)
  case (1 net req max_retries attempt)
  show ?case
  proof (cases "int attempt < max_retries")
    case False
    then show ?thesis by (simp add: quote_loop_done)
  next
    case True
    show ?thesis
    proof (cases "quote_attempt (net attempt)")
      case (Return q)
      with True "1.prems" show ?thesis by (simp add: quote_loop_return)
    next
      case (RateLimited d)
      with True "1.prems" "1.IH"(1) [OF True RateLimited] show ?thesis
        by (simp add: quote_loop_rate_limited)
    next
      case Excepted
      with True "1.prems" "1.IH"(2) [OF True Excepted] show ?thesis
        by (simp add: quote_loop_excepted)
    qed
  qed
qed

lemma quote_loop_sustained:
  "is_quote_request req \<Longrightarrow>
   (\<forall>j q. k \<le> j \<and> int j < max_retries \<longrightarrow> quote_attempt (net j) \<noteq> Return q) \<Longrightarrow>
   fst (quote_loop net req max_retries k) = JObj [] \<and>
   int (length (filter is_quote_request (snd (quote_loop net req max_retries k))))
     = max 0 (max_retries - int k)"
proof (induction net req max_retries k rule: quote_loop.induct)
  case (1 net req max_retries attempt)
  show ?case
  proof (cases "int attempt < max_retries")
    case False
    then show ?thesis by (simp add: quote_loop_done)
  next
    case True
    have later: "\<forall>j q. Suc attempt \<le> j \<and> int j < max_retries \<longrightarrow> quote_attempt (net j) \<noteq> Return q"
      using "1.prems"(2) by auto
    show ?thesis
    proof (cases "quote_attempt (net attempt)")
      case (Return q)
      with True "1.prems"(2) show ?thesis by auto
    next
      case (RateLimited d)
      with True "1.prems"(1) "1.IH"(1) [OF True RateLimited "1.prems"(1) later] show ?thesis
        by (simp add: quote_loop_rate_limited)
    next
      case Excepted
      with True "1.prems"(1) "1.IH"(2) [OF True Excepted "1.prems"(1) later] show ?thesis
        by (simp add: quote_loop_excepted)
    qed
  qed
qed

lemma quote_attempt_Raised: "quote_attempt Raised = Excepted"
  by (simp add: quote_attempt_def)

text \<open>
  Claim C1, as the code has it. In every pass of the retry loop of
  \<^verbatim>\<open>jupiter_get_quote\<close> whose response body decodes (or is empty): a 429 response
  sleeps the delay of the \<^verbatim>\<open>Retry-After\<close> header, 5 seconds when the header is
  absent, and retries with the attempt counted; any other status that is not 200 returns
  the empty result at once, with no sleep and no retry. A request that raises, a body
  that does not decode as JSON (whatever the status), and a 429 response whose
  \<^verbatim>\<open>Retry-After\<close> is not an integer sleep \<open>2 ^ attempt\<close> seconds and retry, counted
  against the same budget. Once \<^verbatim>\<open>attempt\<close> reaches \<^verbatim>\<open>max_retries\<close> the
  result is empty, and a call never sends more than \<^verbatim>\<open>max_retries\<close> requests. The
  function is total: no exception reaches the caller.
\<close>

theorem jupiter_get_quote_status_handling:
  "(int k < max_retries \<and> net k = Response resp \<and> decoded resp \<noteq> Undecodable
      \<and> status resp = 429 \<and> retry_after resp = None
      \<longrightarrow> quote_loop net req max_retries k
            = retried (quote_loop net req max_retries (Suc k)) req 5)
   \<and> (int k < max_retries \<and> net k = Response resp \<and> decoded resp \<noteq> Undecodable
      \<and> status resp = 429 \<and> retry_after resp = Some h \<and> py_int_str h = Some d
      \<longrightarrow> quote_loop net req max_retries k
            = retried (quote_loop net req max_retries (Suc k)) req d)
   \<and> (int k < max_retries \<and> net k = Response resp \<and> decoded resp \<noteq> Undecodable
      \<and> status resp \<noteq> 429 \<and> status resp \<noteq> 200
      \<longrightarrow> quote_loop net req max_retries k = (JObj [], [req]))
   \<and> (int k < max_retries
      \<and> (net k = Raised
          \<or> net k = Response resp
             \<and> (decoded resp = Undecodable
                 \<or> status resp = 429 \<and> retry_after resp = Some h \<and> py_int_str h = None))
      \<longrightarrow> quote_loop net req max_retries k
            = retried (quote_loop net req max_retries (Suc k)) req (2 ^ k))
   \<and> (max_retries \<le> int k \<longrightarrow> quote_loop net req max_retries k = (JObj [], []))
   \<and> int (length (filter is_quote_request
         (snd (jupiter_get_quote net input_mint output_mint amount slippage max_retries))))
       \<le> max 0 max_retries"
proof -
  have a: "quote_loop net req max_retries k = retried (quote_loop net req max_retries (Suc k)) req 5"
    if "int k < max_retries" "net k = Response resp" "decoded resp \<noteq> Undecodable"
       "status resp = 429" "retry_after resp = None"
  proof -
    have "quote_attempt (net k) = RateLimited 5"
      using that by (cases "decoded resp") (simp_all add: quote_attempt_def rate_limited_def)
    then show ?thesis
      using that(1) by (simp add: quote_loop_rate_limited retried_def)
  qed
  have b: "quote_loop net req max_retries k = retried (quote_loop net req max_retries (Suc k)) req d"
    if "int k < max_retries" "net k = Response resp" "decoded resp \<noteq> Undecodable"
       "status resp = 429" "retry_after resp = Some h" "py_int_str h = Some d"
  proof -
    have "quote_attempt (net k) = RateLimited d"
      using that by (cases "decoded resp") (simp_all add: quote_attempt_def rate_limited_def)
    then show ?thesis
      using that(1) by (simp add: quote_loop_rate_limited retried_def)
  qed
  have c: "quote_loop net req max_retries k = (JObj [], [req])"
    if "int k < max_retries" "net k = Response resp" "decoded resp \<noteq> Undecodable"
       "status resp \<noteq> 429" "status resp \<noteq> 200"
  proof -
    have "quote_attempt (net k) = Return (JObj [])"
      using that by (cases "decoded resp") (simp_all add: quote_attempt_def)
    then show ?thesis
      using that(1) by (simp add: quote_loop_return)
  qed
  have d: "quote_loop net req max_retries k = retried (quote_loop net req max_retries (Suc k)) req (2 ^ k)"
    if "int k < max_retries"
       "net k = Raised \<or> net k = Response resp
          \<and> (decoded resp = Undecodable
              \<or> status resp = 429 \<and> retry_after resp = Some h \<and> py_int_str h = None)"
  proof -
    have "quote_attempt (net k) = Excepted"
      using that(2)
      by (cases "decoded resp") (auto simp add: quote_attempt_def rate_limited_def)
    then show ?thesis
      using that(1) by (simp add: quote_loop_excepted retried_def)
  qed
  have e: "max_retries \<le> int k \<longrightarrow> quote_loop net req max_retries k = (JObj [], [])"
    by (simp add: quote_loop_done)
  have f: "int (length (filter is_quote_request
         (snd (jupiter_get_quote net input_mint output_mint amount slippage max_retries))))
       \<le> max 0 max_retries"
    using quote_loop_requests_le
      [of "QuoteRequest input_mint output_mint amount (py_int_of_float (fl_mul slippage 100))"
          net max_retries 0]
    by (simp add: jupiter_get_quote_def)
  from a b c d e f show ?thesis by blast
qed

text \<open>
  Claim C1 as stated fails: a response with status 500 whose body is not JSON is not an
  immediate failure. \<^verbatim>\<open>resp.json()\<close> raises before the status is tested, so the
  call backs off and sends a second request.
\<close>

theorem jupiter_get_quote_retries_status_500:
  "jupiter_get_quote
     (always (Response \<lparr>status = 500, retry_after = None, decoded = Undecodable\<rparr>))
     ''in'' ''out'' 1000 20 2
   = (JObj [], [QuoteRequest ''in'' ''out'' 1000 2000, Sleep 1,
           QuoteRequest ''in'' ''out'' 1000 2000, Sleep 2])"
  by code_simp

text \<open>The status handling of C1 at four concrete replies.\<close>

theorem jupiter_get_quote_status_handling_witness:
  "quote_loop (always (Response \<lparr>status = 429, retry_after = None, decoded = Decoded JNull\<rparr>))
      (QuoteRequest ''a'' ''b'' 1 2000) 1 0 = (JObj [], [QuoteRequest ''a'' ''b'' 1 2000, Sleep 5])
   \<and> quote_loop (always (Response \<lparr>status = 429, retry_after = Some ''7'', decoded = Decoded (JObj [])\<rparr>))
      (QuoteRequest ''a'' ''b'' 1 2000) 1 0 = (JObj [], [QuoteRequest ''a'' ''b'' 1 2000, Sleep 7])
   \<and> quote_loop (always (Response \<lparr>status = 503, retry_after = None, decoded = Decoded (JObj [])\<rparr>))
      (QuoteRequest ''a'' ''b'' 1 2000) 5 0 = (JObj [], [QuoteRequest ''a'' ''b'' 1 2000])
   \<and> quote_loop (always Raised) (QuoteRequest ''a'' ''b'' 1 2000) 4 3 = (JObj [], [QuoteRequest ''a'' ''b'' 1 2000, Sleep 8])"
  using
    jupiter_get_quote_status_handling
      [where k = 0 and max_retries = 1 and req = "QuoteRequest ''a'' ''b'' 1 2000"
         and resp = "\<lparr>status = 429, retry_after = None, decoded = Decoded JNull\<rparr>"
         and net = "always (Response \<lparr>status = 429, retry_after = None, decoded = Decoded JNull\<rparr>)"]
    jupiter_get_quote_status_handling
      [where k = 0 and max_retries = 1 and req = "QuoteRequest ''a'' ''b'' 1 2000" and h = "''7''" and d = 7
         and resp = "\<lparr>status = 429, retry_after = Some ''7'', decoded = Decoded (JObj [])\<rparr>"
         and net = "always (Response \<lparr>status = 429, retry_after = Some ''7'', decoded = Decoded (JObj [])\<rparr>)"]
    jupiter_get_quote_status_handling
      [where k = 0 and max_retries = 5 and req = "QuoteRequest ''a'' ''b'' 1 2000"
         and resp = "\<lparr>status = 503, retry_after = None, decoded = Decoded (JObj [])\<rparr>"
         and net = "always (Response \<lparr>status = 503, retry_after = None, decoded = Decoded (JObj [])\<rparr>)"]
    jupiter_get_quote_status_handling
      [where k = 3 and max_retries = 4 and req = "QuoteRequest ''a'' ''b'' 1 2000" and net = "always Raised"]
  by (simp add: always_def retried_def quote_loop_done py_int_str_def strip_def is_space_def
        is_digit_def digit_val_def)

subsection \<open>Success responses and the route plan\<close>

lemma quote_attempt_Return_cases:
  "quote_attempt r = Return q \<Longrightarrow>
   q = JObj [] \<or> (\<exists>resp. r = Response resp \<and> status resp = 200 \<and> decoded resp = Decoded q
                    \<and> py_truthy q \<and> py_contains ''routePlan'' q = Some True)"
  by (auto simp add: quote_attempt_def rate_limited_def
      split: reply.splits json_body.splits if_splits option.splits)

lemma quote_loop_result_from_response:
  "fst (quote_loop net req max_retries k) \<noteq> JObj [] \<Longrightarrow>
   \<exists>j resp. k \<le> j \<and> int j < max_retries \<and> net j = Response resp \<and> status resp = 200
     \<and> decoded resp = Decoded (fst (quote_loop net req max_retries k))
     \<and> py_truthy (fst (quote_loop net req max_retries k))
     \<and> py_contains ''routePlan'' (fst (quote_loop net req max_retries k)) = Some True"
proof (induction net req max_retries k rule: quote_loop.induct)
  case (1 net req max_retries attempt)
  show ?case
  proof (cases "int attempt < max_retries")
    case False
    with "1.prems" show ?thesis by (simp add: quote_loop_done)
  next
    case True
    show ?thesis
    proof (cases "quote_attempt (net attempt)")
      case (Return q)
      with True have eq: "quote_loop net req max_retries attempt = (q, [req])"
        by (simp add: quote_loop_return)
      with "1.prems" have "q \<noteq> JObj []" by simp
      with quote_attempt_Return_cases [OF Return] obtain resp where
        "net attempt = Response resp" "status resp = 200" "decoded resp = Decoded q"
        "py_truthy q" "py_contains ''routePlan'' q = Some True" by blast
      with True eq show ?thesis by auto
    next
      case (RateLimited d)
      with True have eq: "fst (quote_loop net req max_retries attempt)
          = fst (quote_loop net req max_retries (Suc attempt))"
        by (simp add: quote_loop_rate_limited)
      with "1.prems" "1.IH"(1) [OF True RateLimited] show ?thesis
        by (metis Suc_leD)
    next
      case Excepted
      with True have eq: "fst (quote_loop net req max_retries attempt)
          = fst (quote_loop net req max_retries (Suc attempt))"
        by (simp add: quote_loop_excepted)
      with "1.prems" "1.IH"(2) [OF True Excepted] show ?thesis
        by (metis Suc_leD)
    qed
  qed
qed

lemma quote_loop_result_truthy:
  "py_truthy (fst (quote_loop net req max_retries k))
   \<longleftrightarrow> fst (quote_loop net req max_retries k) \<noteq> JObj []"
  using quote_loop_result_from_response [of net req max_retries k]
  by (cases "fst (quote_loop net req max_retries k) = JObj []") auto

text \<open>
  Claim C4, as the code has it. For a response with status 200 whose body decodes,
  \<^verbatim>\<open>jupiter_get_quote\<close> returns the body when it is truthy and the test
  \<^verbatim>\<open>"routePlan" in data\<close> holds. For an object that means: not empty and with the
  key \<^verbatim>\<open>routePlan\<close>, whatever the value under the key; the same test also lets
  through an array that holds the string and a string that contains it. A 200 response
  whose body is empty, falsy or fails the test gives the empty result at once, with no
  sleep and no retry; a body on which the test raises, a number or \<^verbatim>\<open>true\<close>, is
  retried after \<open>2 ^ attempt\<close> seconds. Every non-empty result of a call is the body
  of a 200 response of that call on which the test holds.
\<close>

theorem jupiter_get_quote_route_plan_key:
  "(int k < max_retries \<and> net k = Response resp \<and> status resp = 200
      \<and> decoded resp = Decoded (JObj kvs) \<and> kvs \<noteq> [] \<and> map_of kvs ''routePlan'' \<noteq> None
      \<longrightarrow> quote_loop net req max_retries k = (JObj kvs, [req]))
   \<and> (int k < max_retries \<and> net k = Response resp \<and> status resp = 200
      \<and> (decoded resp = Decoded JNull
          \<or> decoded resp = Decoded (JObj kvs)
             \<and> (kvs = [] \<or> map_of kvs ''routePlan'' = None))
      \<longrightarrow> quote_loop net req max_retries k = (JObj [], [req]))
   \<and> (int k < max_retries \<and> net k = Response resp \<and> status resp = 200
      \<and> decoded resp = Decoded data \<and> py_truthy data
      \<and> py_contains ''routePlan'' data = Some True
      \<longrightarrow> quote_loop net req max_retries k = (data, [req]))
   \<and> (int k < max_retries \<and> net k = Response resp \<and> status resp = 200
      \<and> decoded resp = Decoded data
      \<and> (\<not> py_truthy data \<or> py_contains ''routePlan'' data = Some False)
      \<longrightarrow> quote_loop net req max_retries k = (JObj [], [req]))
   \<and> (int k < max_retries \<and> net k = Response resp \<and> status resp = 200
      \<and> decoded resp = Decoded data \<and> py_truthy data
      \<and> py_contains ''routePlan'' data = None
      \<longrightarrow> quote_loop net req max_retries k
            = retried (quote_loop net req max_retries (Suc k)) req (2 ^ k))
   \<and> (fst (jupiter_get_quote net input_mint output_mint amount slippage max_retries) \<noteq> JObj []
      \<longrightarrow> (\<exists>j resp'. int j < max_retries \<and> net j = Response resp' \<and> status resp' = 200
             \<and> decoded resp'
                 = Decoded (fst (jupiter_get_quote net input_mint output_mint amount slippage
                                   max_retries))
             \<and> py_truthy (fst (jupiter_get_quote net input_mint output_mint amount slippage
                                  max_retries))
             \<and> py_contains ''routePlan''
                 (fst (jupiter_get_quote net input_mint output_mint amount slippage max_retries))
               = Some True))"
proof -
  have c: "quote_loop net req max_retries k = (data, [req])"
    if "int k < max_retries" "net k = Response resp" "status resp = 200"
       "decoded resp = Decoded data" "py_truthy data"
       "py_contains ''routePlan'' data = Some True" for data
  proof -
    have "quote_attempt (net k) = Return data"
      using that by (simp add: quote_attempt_def)
    then show ?thesis using that(1) by (simp add: quote_loop_return)
  qed
  have d: "quote_loop net req max_retries k = (JObj [], [req])"
    if "int k < max_retries" "net k = Response resp" "status resp = 200"
       "decoded resp = Decoded data"
       "\<not> py_truthy data \<or> py_contains ''routePlan'' data = Some False" for data
  proof -
    have "quote_attempt (net k) = Return (JObj [])"
      using that by (auto simp add: quote_attempt_def)
    then show ?thesis using that(1) by (simp add: quote_loop_return)
  qed
  have e: "quote_loop net req max_retries k
            = retried (quote_loop net req max_retries (Suc k)) req (2 ^ k)"
    if "int k < max_retries" "net k = Response resp" "status resp = 200"
       "decoded resp = Decoded data" "py_truthy data"
       "py_contains ''routePlan'' data = None"
  proof -
    have "quote_attempt (net k) = Excepted"
      using that by (simp add: quote_attempt_def)
    then show ?thesis using that(1) by (simp add: quote_loop_excepted retried_def)
  qed
  have a: "quote_loop net req max_retries k = (JObj kvs, [req])"
    if "int k < max_retries" "net k = Response resp" "status resp = 200"
       "decoded resp = Decoded (JObj kvs)" "kvs \<noteq> []" "map_of kvs ''routePlan'' \<noteq> None"
    using c [of "JObj kvs"] that by simp
  have b: "quote_loop net req max_retries k = (JObj [], [req])"
    if "int k < max_retries" "net k = Response resp" "status resp = 200"
       "decoded resp = Decoded JNull
          \<or> decoded resp = Decoded (JObj kvs)
             \<and> (kvs = [] \<or> map_of kvs ''routePlan'' = None)"
    using d [of JNull] d [of "JObj kvs"] that by auto
  have f: "\<exists>j resp'. int j < max_retries \<and> net j = Response resp' \<and> status resp' = 200
             \<and> decoded resp'
                 = Decoded (fst (jupiter_get_quote net input_mint output_mint amount slippage
                                   max_retries))
             \<and> py_truthy (fst (jupiter_get_quote net input_mint output_mint amount slippage
                                  max_retries))
             \<and> py_contains ''routePlan''
                 (fst (jupiter_get_quote net input_mint output_mint amount slippage max_retries))
               = Some True"
    if "fst (jupiter_get_quote net input_mint output_mint amount slippage max_retries)
          \<noteq> JObj []"
    using quote_loop_result_from_response [of net _ max_retries 0] that
    unfolding jupiter_get_quote_def by blast
  from a b c d e f show ?thesis by blast
qed

text \<open>
  Claim C4 as stated fails: the code tests that the key \<^verbatim>\<open>routePlan\<close> is present,
  not that the plan has a step. A 200 response whose route plan is the empty array is
  returned as a quote.
\<close>

theorem jupiter_get_quote_returns_empty_route_plan:
  "jupiter_get_quote
     (always (Response \<lparr>status = 200, retry_after = None,
                         decoded = Decoded (JObj [(''routePlan'', JArr [])])\<rparr>))
     ''in'' ''out'' 1000 20 5
   = (JObj [(''routePlan'', JArr [])], [QuoteRequest ''in'' ''out'' 1000 2000])"
  by code_simp

text \<open>
  The handling of C4 at an object with a route plan, an object without one, an array
  holding the string, a string without it and a number.
\<close>

theorem jupiter_get_quote_route_plan_key_witness:
  "quote_loop
     (always (Response \<lparr>status = 200, retry_after = None,
                         decoded = Decoded (JObj [(''routePlan'', JArr [JStr ''hop'']),
                                                  (''outAmount'', JStr ''42'')])\<rparr>))
     (QuoteRequest ''a'' ''b'' 1 2000) 5 0
     = (JObj [(''routePlan'', JArr [JStr ''hop'']), (''outAmount'', JStr ''42'')],
        [QuoteRequest ''a'' ''b'' 1 2000])
   \<and> quote_loop
     (always (Response \<lparr>status = 200, retry_after = None,
                         decoded = Decoded (JObj [(''error'', JStr ''no route'')])\<rparr>))
     (QuoteRequest ''a'' ''b'' 1 2000) 5 0
     = (JObj [], [QuoteRequest ''a'' ''b'' 1 2000])
   \<and> quote_loop
     (always (Response \<lparr>status = 200, retry_after = None,
                         decoded = Decoded (JArr [JStr ''routePlan''])\<rparr>))
     (QuoteRequest ''a'' ''b'' 1 2000) 5 0
     = (JArr [JStr ''routePlan''], [QuoteRequest ''a'' ''b'' 1 2000])
   \<and> quote_loop
     (always (Response \<lparr>status = 200, retry_after = None, decoded = Decoded (JStr ''oops'')\<rparr>))
     (QuoteRequest ''a'' ''b'' 1 2000) 5 0
     = (JObj [], [QuoteRequest ''a'' ''b'' 1 2000])
   \<and> quote_loop
     (always (Response \<lparr>status = 200, retry_after = None, decoded = Decoded (JInt 7)\<rparr>))
     (QuoteRequest ''a'' ''b'' 1 2000) 1 0
     = (JObj [], [QuoteRequest ''a'' ''b'' 1 2000, Sleep 1])
   \<and> py_contains ''routePlan'' (fst (jupiter_get_quote
        (always (Response \<lparr>status = 200, retry_after = None,
                            decoded = Decoded (JObj [(''routePlan'', JArr [JStr ''hop''])])\<rparr>))
        ''a'' ''b'' 1 20 5)) = Some True"
proof -
  let ?rq = "QuoteRequest ''a'' ''b'' 1 2000"
  let ?r1 = "\<lparr>status = 200, retry_after = None,
               decoded = Decoded (JObj [(''routePlan'', JArr [JStr ''hop'']),
                                        (''outAmount'', JStr ''42'')])\<rparr>"
  let ?r2 = "\<lparr>status = 200, retry_after = None,
               decoded = Decoded (JObj [(''error'', JStr ''no route'')])\<rparr>"
  let ?r3 = "\<lparr>status = 200, retry_after = None, decoded = Decoded (JArr [JStr ''routePlan''])\<rparr>"
  let ?r4 = "\<lparr>status = 200, retry_after = None, decoded = Decoded (JStr ''oops'')\<rparr>"
  let ?r5 = "\<lparr>status = 200, retry_after = None, decoded = Decoded (JInt 7)\<rparr>"
  let ?r6 = "\<lparr>status = 200, retry_after = None,
               decoded = Decoded (JObj [(''routePlan'', JArr [JStr ''hop''])])\<rparr>"
  have ne: "fst (jupiter_get_quote (always (Response ?r6)) ''a'' ''b'' 1 20 5) \<noteq> JObj []"
    by code_simp
  have t1: "quote_loop (always (Response ?r1)) ?rq 5 0
      = (JObj [(''routePlan'', JArr [JStr ''hop'']), (''outAmount'', JStr ''42'')], [?rq])"
    using jupiter_get_quote_route_plan_key
        [where k = 0 and max_retries = 5 and req = ?rq and resp = ?r1
           and net = "always (Response ?r1)"
           and kvs = "[(''routePlan'', JArr [JStr ''hop'']), (''outAmount'', JStr ''42'')]", THEN conjunct1]
    by (simp add: always_def)
  have t2: "quote_loop (always (Response ?r2)) ?rq 5 0 = (JObj [], [?rq])"
    using jupiter_get_quote_route_plan_key
        [where k = 0 and max_retries = 5 and req = ?rq and resp = ?r2
           and net = "always (Response ?r2)" and kvs = "[(''error'', JStr ''no route'')]", THEN conjunct2, THEN conjunct1]
    by (simp add: always_def)
  have t3: "quote_loop (always (Response ?r3)) ?rq 5 0 = (JArr [JStr ''routePlan''], [?rq])"
    using jupiter_get_quote_route_plan_key
        [where k = 0 and max_retries = 5 and req = ?rq and resp = ?r3
           and net = "always (Response ?r3)" and data = "JArr [JStr ''routePlan'']", THEN conjunct2, THEN conjunct2, THEN conjunct1]
    by (simp add: always_def)
  have t4: "quote_loop (always (Response ?r4)) ?rq 5 0 = (JObj [], [?rq])"
    using jupiter_get_quote_route_plan_key
        [where k = 0 and max_retries = 5 and req = ?rq and resp = ?r4
           and net = "always (Response ?r4)" and data = "JStr ''oops''", THEN conjunct2, THEN conjunct2, THEN conjunct2, THEN conjunct1]
    by (simp add: always_def)
  have t5: "quote_loop (always (Response ?r5)) ?rq 1 0 = (JObj [], [?rq, Sleep 1])"
    using jupiter_get_quote_route_plan_key
        [where k = 0 and max_retries = 1 and req = ?rq and resp = ?r5
           and net = "always (Response ?r5)" and data = "JInt 7", THEN conjunct2, THEN conjunct2, THEN conjunct2, THEN conjunct2, THEN conjunct1]
    by (simp add: always_def retried_def quote_loop_done)
  have t6: "py_contains ''routePlan''
      (fst (jupiter_get_quote (always (Response ?r6)) ''a'' ''b'' 1 20 5)) = Some True"
    using jupiter_get_quote_route_plan_key
        [where max_retries = 5 and input_mint = "''a''" and output_mint = "''b''"
           and amount = 1 and slippage = 20 and net = "always (Response ?r6)", THEN conjunct2, THEN conjunct2, THEN conjunct2, THEN conjunct2, THEN conjunct2]
      ne
    by blast
  from t1 t2 t3 t4 t5 t6 show ?thesis by (simp only: simp_thms)
qed

subsection \<open>Rounding error of the double arithmetic\<close>

lemma pow2_pos: "0 < pow2 e"
  by (simp add: pow2_def)

lemma pow2_add: "pow2 (a + b) = pow2 a * pow2 b"
proof -
  have "pow2 e = 2 powi e" for e
    by (simp add: pow2_def power_int_def field_simps)
  then show ?thesis by (simp add: power_int_add)
qed

lemma pow2_ilog2_le: "0 < x \<Longrightarrow> pow2 (ilog2 x) \<le> x"
proof (cases "1 \<le> x")
  case True
  then have pos: "0 < \<lfloor>x\<rfloor>" by linarith
  from bitlen_bounds [OF pos] have le: "(2::int) ^ nat (bitlen \<lfloor>x\<rfloor> - 1) \<le> \<lfloor>x\<rfloor>" by simp
  have "1 \<le> bitlen \<lfloor>x\<rfloor>" using pos by (simp add: bitlen_alt_def)
  then have "pow2 (ilog2 x) = 2 ^ nat (bitlen \<lfloor>x\<rfloor> - 1)"
    using True by (simp add: ilog2_def pow2_def)
  also have "\<dots> = of_int (2 ^ nat (bitlen \<lfloor>x\<rfloor> - 1))" by simp
  also have "\<dots> \<le> of_int \<lfloor>x\<rfloor>" using le by (simp only: of_int_le_iff)
  also have "\<dots> \<le> x" by simp
  finally show ?thesis .
next
  case False
  assume x: "0 < x"
  let ?n = "\<lceil>1 / x\<rceil> - 1"
  have "1 < 1 / x" using False x by (simp add: field_simps)
  then have pos: "0 < ?n" by linarith
  from bitlen_bounds [OF pos] have lt: "?n < 2 ^ nat (bitlen ?n)" by simp
  have "1 / x \<le> of_int \<lceil>1 / x\<rceil>" by simp
  also have "\<lceil>1 / x\<rceil> \<le> 2 ^ nat (bitlen ?n)" using lt by simp
  then have "(of_int \<lceil>1 / x\<rceil> :: rat) \<le> of_int (2 ^ nat (bitlen ?n))"
    by (simp only: of_int_le_iff)
  finally have "1 / x \<le> 2 ^ nat (bitlen ?n)" by simp
  then have "1 / 2 ^ nat (bitlen ?n) \<le> x" using x by (simp add: field_simps)
  moreover have "0 < bitlen ?n" using pos by (simp add: bitlen_alt_def)
  ultimately show ?thesis using False by (simp add: ilog2_def pow2_def)
qed

lemma round_half_even_error: "\<bar>of_int (round_half_even m) - m\<bar> \<le> 1 / 2"
proof -
  define d where "d = m - of_int \<lfloor>m\<rfloor>"
  have d: "0 \<le> d" "d < 1" unfolding d_def by linarith+
  have m: "m = of_int \<lfloor>m\<rfloor> + d" by (simp add: d_def)
  have "round_half_even m = \<lfloor>m\<rfloor> \<and> d \<le> 1 / 2 \<or> round_half_even m = \<lfloor>m\<rfloor> + 1 \<and> 1 / 2 \<le> d"
    unfolding round_half_even_def Let_def d_def [symmetric] by auto
  then show ?thesis
  proof
    assume "round_half_even m = \<lfloor>m\<rfloor> \<and> d \<le> 1 / 2"
    then have "of_int (round_half_even m) - m = - d" "d \<le> 1 / 2" using m by simp_all
    with d show ?thesis by simp
  next
    assume "round_half_even m = \<lfloor>m\<rfloor> + 1 \<and> 1 / 2 \<le> d"
    then have "of_int (round_half_even m) - m = 1 - d" "1 / 2 \<le> d" using m by simp_all
    with d show ?thesis by simp
  qed
qed

lemma fl_round_error: "\<bar>fl_round x - x\<bar> \<le> \<bar>x\<bar> / 2 ^ 53"
proof (cases "x = 0")
  case True
  then show ?thesis by (simp add: fl_round_def)
next
  case False
  define e where "e = ilog2 \<bar>x\<bar> - 52"
  define r :: rat where "r = of_int (round_half_even (\<bar>x\<bar> / pow2 e))"
  have fl: "fl_round x = sgn x * r * pow2 e"
    using False by (simp add: fl_round_def e_def r_def Let_def)
  have "\<bar>fl_round x - x\<bar> = \<bar>r * pow2 e - \<bar>x\<bar>\<bar>"
  proof (cases "0 < x")
    case True
    then show ?thesis by (simp add: fl)
  next
    case neg: False
    with False have "x < 0" by simp
    then have "fl_round x - x = - (r * pow2 e - \<bar>x\<bar>)" by (simp add: fl)
    then show ?thesis by (simp only: abs_minus)
  qed
  also have "\<dots> = \<bar>r - \<bar>x\<bar> / pow2 e\<bar> * pow2 e"
  proof -
    have "r * pow2 e - \<bar>x\<bar> = (r - \<bar>x\<bar> / pow2 e) * pow2 e"
      using pow2_pos [of e] by (simp add: field_simps)
    then show ?thesis using pow2_pos [of e] by (simp add: abs_mult)
  qed
  also have "\<dots> \<le> (1 / 2) * pow2 e"
    using round_half_even_error [of "\<bar>x\<bar> / pow2 e"] pow2_pos [of e]
    by (intro mult_right_mono) (simp_all add: r_def)
  also have "pow2 e = pow2 (ilog2 \<bar>x\<bar>) * pow2 (- 52)"
    by (simp add: e_def flip: pow2_add)
  also have "(1 / 2) * (pow2 (ilog2 \<bar>x\<bar>) * pow2 (- 52)) = pow2 (ilog2 \<bar>x\<bar>) / 2 ^ 53"
    by (simp add: pow2_def)
  also have "\<dots> \<le> \<bar>x\<bar> / 2 ^ 53"
    using pow2_ilog2_le [of "\<bar>x\<bar>"] False by (simp add: divide_right_mono)
  finally show ?thesis .
qed

lemma round_half_even_nonneg: "0 \<le> m \<Longrightarrow> 0 \<le> round_half_even m"
proof -
  assume "0 \<le> m"
  then have "0 \<le> \<lfloor>m\<rfloor>" by simp
  then show ?thesis by (simp add: round_half_even_def Let_def)
qed

lemma fl_round_nonneg: "0 \<le> x \<Longrightarrow> 0 \<le> fl_round x"
proof (cases "x = 0")
  case True
  then show ?thesis by (simp add: fl_round_def)
next
  case False
  assume "0 \<le> x"
  with False have x: "0 < x" by simp
  define e where "e = ilog2 \<bar>x\<bar> - 52"
  have "0 \<le> \<bar>x\<bar> / pow2 e" using pow2_pos [of e] by simp
  then have "0 \<le> round_half_even (\<bar>x\<bar> / pow2 e)" by (rule round_half_even_nonneg)
  then have "0 \<le> (of_int (round_half_even (\<bar>x\<bar> / pow2 e)) :: rat) * pow2 e"
    using pow2_pos [of e] by simp
  then show ?thesis using x by (simp add: fl_round_def Let_def e_def)
qed

subsection \<open>Effects of the swap client and the unit conversion of a buy\<close>

lemma quote_loop_events:
  "e \<in> set (snd (quote_loop net req max_retries k)) \<Longrightarrow> e = req \<or> (\<exists>d. e = Sleep d)"
proof (induction net req max_retries k rule: quote_loop.induct)
  case (1 net req max_retries attempt)
  show ?case
  proof (cases "int attempt < max_retries")
    case False
    with "1.prems" show ?thesis by (simp add: quote_loop_done)
  next
    case True
    show ?thesis
    proof (cases "quote_attempt (net attempt)")
      case (Return q)
      with True "1.prems" show ?thesis by (simp add: quote_loop_return)
    next
      case (RateLimited d)
      with True "1.prems" "1.IH"(1) [OF True RateLimited] show ?thesis
        by (auto simp add: quote_loop_rate_limited)
    next
      case Excepted
      with True "1.prems" "1.IH"(2) [OF True Excepted] show ?thesis
        by (auto simp add: quote_loop_excepted)
    qed
  qed
qed

lemma quote_loop_first_event:
  "int k < max_retries \<Longrightarrow> \<exists>evs. snd (quote_loop net req max_retries k) = req # evs"
  by (cases "quote_attempt (net k)")
     (simp_all add: quote_loop_return quote_loop_rate_limited quote_loop_excepted)

lemma jupiter_get_quote_events:
  "e \<in> set (snd (jupiter_get_quote net i out a sl m)) \<Longrightarrow>
   is_quote_request e \<or> (\<exists>d. e = Sleep d)"
  unfolding jupiter_get_quote_def by (auto dest: quote_loop_events)

lemma is_quote_request_other:
  "is_quote_request e \<Longrightarrow> \<not> is_sell_call e \<and> \<not> is_buy_call e"
  by (cases e) simp_all

lemma buy_token_jupiter_events:
  assumes "e \<in> set (snd (buy_token_jupiter env w t a))"
  shows "\<not> is_sell_call e \<and> \<not> is_buy_call e"
proof -
  obtain q evs where jq:
    "jupiter_get_quote (quote_net env) SOL_MINT t (to_lamports a) DEFAULT_SLIPPAGE 5 = (q, evs)"
    by (cases "jupiter_get_quote (quote_net env) SOL_MINT t (to_lamports a) DEFAULT_SLIPPAGE 5")
  have evs: "is_quote_request x \<or> (\<exists>d. x = Sleep d)" if "x \<in> set evs" for x
    using jupiter_get_quote_events
      [of x "quote_net env" SOL_MINT t "to_lamports a" DEFAULT_SLIPPAGE 5] that
    by (simp add: jq)
  from assms have "e \<in> set evs \<or> e = SwapRequest w q"
    by (auto simp add: buy_token_jupiter_def jupiter_swap_def Let_def jq
        split: if_splits option.splits json.splits)
  with evs [of e] show ?thesis by (auto dest: is_quote_request_other)
qed


lemma to_lamports_error:
  assumes "0 \<le> a"
  shows "\<bar>of_int (to_lamports a) - a * 1000000000\<bar> < 1 + a * 1000000000 / 2 ^ 53"
proof -
  define p where "p = fl_round (a * 1000000000)"
  have p0: "0 \<le> p" unfolding p_def using assms by (intro fl_round_nonneg) simp
  have "\<bar>p - a * 1000000000\<bar> \<le> \<bar>a * 1000000000\<bar> / 2 ^ 53"
    unfolding p_def by (rule fl_round_error)
  then have e1: "\<bar>p - a * 1000000000\<bar> \<le> a * 1000000000 / 2 ^ 53"
    using assms by simp
  have l: "to_lamports a = \<lfloor>p\<rfloor>"
    using p0 by (simp add: to_lamports_def fl_mul_def py_int_of_float_def p_def)
  have e2: "\<bar>of_int \<lfloor>p\<rfloor> - p\<bar> < 1" by linarith
  have "\<bar>of_int \<lfloor>p\<rfloor> - a * 1000000000\<bar> \<le> \<bar>of_int \<lfloor>p\<rfloor> - p\<bar> + \<bar>p - a * 1000000000\<bar>"
    by linarith
  with e1 e2 l show ?thesis by linarith
qed

lemma to_lamports_one: "to_lamports (float_literal 1) = 1000000000"
  by code_simp

lemma to_lamports_dust: "to_lamports (float_literal (1 / 10000)) = 100000"
  by code_simp

text \<open>
  Claim C5, as the code has it. \<^verbatim>\<open>buy_token_jupiter\<close> converts the amount with
  \<^verbatim>\<open>int(amount_sol * 1_000_000_000)\<close>, a double multiplication truncated toward
  zero: 1.0 gives 1,000,000,000 units and 0.0001 gives 100,000 units, and for every
  non-negative amount the result is less than one unit plus the rounding of one double
  operation away from the product. Whenever the converted amount is below 100,000 the
  function returns \<^verbatim>\<open>None\<close> and has sent nothing; otherwise its first effect is
  the quote request for the converted amount.
\<close>

theorem buy_token_jupiter_conversion:
  "to_lamports (float_literal 1) = 1000000000
   \<and> to_lamports (float_literal (1 / 10000)) = 100000
   \<and> (0 \<le> a \<longrightarrow> \<bar>of_int (to_lamports a) - a * 1000000000\<bar> < 1 + a * 1000000000 / 2 ^ 53)
   \<and> (to_lamports a < 100000 \<longrightarrow> buy_token_jupiter env wallet_kp token a = (Inr None, []))
   \<and> (\<not> to_lamports a < 100000 \<longrightarrow>
        (\<exists>evs. snd (buy_token_jupiter env wallet_kp token a)
                 = QuoteRequest SOL_MINT token (to_lamports a) 2000 # evs))"
proof -
  have d: "buy_token_jupiter env wallet_kp token a = (Inr None, [])" if "to_lamports a < 100000"
    using that by (simp add: buy_token_jupiter_def)
  have bps: "py_int_of_float (fl_mul DEFAULT_SLIPPAGE 100) = 2000"
    by code_simp
  have s: "\<exists>evs. snd (buy_token_jupiter env wallet_kp token a)
                 = QuoteRequest SOL_MINT token (to_lamports a) 2000 # evs"
    if "\<not> to_lamports a < 100000"
  proof -
    obtain evs where
      "snd (quote_loop (quote_net env) (QuoteRequest SOL_MINT token (to_lamports a) 2000) 5 0)
         = QuoteRequest SOL_MINT token (to_lamports a) 2000 # evs"
      using quote_loop_first_event [of 0 5] by auto
    then show ?thesis
      using that
      by (auto simp add: buy_token_jupiter_def jupiter_get_quote_def bps jupiter_swap_def Let_def
          split: prod.splits option.splits json.splits)
  qed
  from to_lamports_one to_lamports_dust to_lamports_error d s show ?thesis by blast
qed

text \<open>
  Claim C5 as stated fails: the conversion is not exact for every amount. The double
  nearest to 0.0157 times \<open>10\<^sup>9\<close> rounds to a double just below 15,700,000, and
  \<^verbatim>\<open>int\<close> truncates it to 15,699,999.
\<close>

theorem to_lamports_truncates_0_0157:
  "to_lamports (float_literal (157 / 10000)) = 15699999
   \<and> (157 / 10000 :: rat) * 1000000000 = 15700000"
  by code_simp

text \<open>The dust floor of C5 at 0.00009 and at 0.01 of the native currency.\<close>

theorem buy_token_jupiter_conversion_witness:
  "buy_token_jupiter \<lparr>quote_net = always Raised, swap_result = None\<rparr> ''wallet'' ''token''
      (float_literal (9 / 100000)) = (Inr None, [])
   \<and> (\<exists>evs. snd (buy_token_jupiter \<lparr>quote_net = always Raised, swap_result = None\<rparr>
                    ''wallet'' ''token'' (float_literal (1 / 100)))
        = QuoteRequest SOL_MINT ''token'' 10000000 2000 # evs)"
proof -
  have a: "to_lamports (float_literal (9 / 100000)) = 90000" by code_simp
  have b: "to_lamports (float_literal (1 / 100)) = 10000000" by code_simp
  have c: "(0::rat) \<le> float_literal (9 / 100000)" by code_simp
  show ?thesis
    using
      buy_token_jupiter_conversion
        [where a = "float_literal (9 / 100000)" and wallet_kp = "''wallet''" and token = "''token''"
           and env = "\<lparr>quote_net = always Raised, swap_result = None\<rparr>"]
      buy_token_jupiter_conversion
        [where a = "float_literal (1 / 100)" and wallet_kp = "''wallet''" and token = "''token''"
           and env = "\<lparr>quote_net = always Raised, swap_result = None\<rparr>"]
      a b c
    by simp
qed

section \<open>Properties of the cycle controller\<close>

subsection \<open>The paths through one pass of the loop\<close>

lemma set_last_buy_lookup: "stored_amount_of (set_last_buy key a s) key = a"
  by (simp add: stored_amount_of_def set_last_buy_def)

lemma rest_seconds_max: "rest_seconds st = max (fixed_rest_delay st) 1"
  by (simp add: rest_seconds_def)


lemma cycle_body_no_buy_amount:
  "settings_reply env = Inr st \<Longrightarrow> fixed_buy st \<le> 0 \<Longrightarrow>
   cycle_body user_id wallet_kp token agent env s
     = (None, others env 1 (others env 0 s), [Sleep 5])"
  by (simp add: cycle_body_def Let_def)




lemma cycle_body_bought:
  "settings_reply env = Inr st \<Longrightarrow> 0 < fixed_buy st \<Longrightarrow>
   \<not> get_sol_balance (balance_reply env) < fixed_buy st \<Longrightarrow>
   buy_token_jupiter (buy_env env) wallet_kp token (fixed_buy st)
     = (Inr (Some (sg, out)), bevs) \<Longrightarrow>
   cycle_body user_id wallet_kp token agent env s
     = (None,
        others env 8
          (fst (sell_block wallet_kp token (user_id @ ''_'' @ agent) st env
                  (set_last_buy (user_id @ ''_'' @ agent) out
                     (others env 4 (others env 2 (others env 0 s)))))),
        BuyCall token (fixed_buy st) # bevs
          @ snd (sell_block wallet_kp token (user_id @ ''_'' @ agent) st env
                   (set_last_buy (user_id @ ''_'' @ agent) out
                      (others env 4 (others env 2 (others env 0 s)))))
          @ [Sleep (rest_seconds st)])"
  by (simp add: cycle_body_def Let_def split: prod.splits)



subsection \<open>A buy that reports no output amount\<close>

text \<open>
  Claim C10. When the converted amount passes the dust floor, the quote obtained is a
  non-empty object, \<^verbatim>\<open>int(quote.get("outAmount"))\<close> raises (the key is missing or
  its value does not parse) and the swap returns a signature, \<^verbatim>\<open>buy_token_jupiter\<close>
  returns the signature with output amount 0 instead of \<^verbatim>\<open>None\<close>. A pass of the
  cycle that receives such a result, with selling enabled and no other task writing
  \<^verbatim>\<open>agent_last_buy\<close>, stores 0 under the agent's key, sleeps the sell delay and
  the rest delay, and never calls the sell operation: the tokens bought stay untracked.
\<close>

theorem buy_zero_output_is_untracked:
  "(\<not> to_lamports a < 100000
      \<and> jupiter_get_quote (quote_net env) SOL_MINT token (to_lamports a) DEFAULT_SLIPPAGE 5
           = (JObj kvs, evs)
      \<and> kvs \<noteq> [] \<and> py_int (map_of kvs ''outAmount'') = None
      \<and> swap_result env = Some sg \<and> sg \<noteq> []
      \<longrightarrow> buy_token_jupiter env wallet_kp token a
            = (Inr (Some (sg, 0)), evs @ [SwapRequest wallet_kp (JObj kvs)]))
   \<and> (settings_reply cenv = Inr st
      \<and> 0 < fixed_buy st
      \<and> \<not> get_sol_balance (balance_reply cenv) < fixed_buy st
      \<and> buy_token_jupiter (buy_env cenv) wallet_kp token (fixed_buy st)
           = (Inr (Some (sg, 0)), bevs)
      \<and> sell_enabled st
      \<and> (\<forall>k x. agent_last_buy (others cenv k x) = agent_last_buy x)
      \<longrightarrow> fst (cycle_body user_id wallet_kp token agent cenv s) = None
          \<and> agent_last_buy (fst (snd (cycle_body user_id wallet_kp token agent cenv s)))
             (user_id @ ''_'' @ agent) = Some 0
          \<and> snd (snd (cycle_body user_id wallet_kp token agent cenv s))
             = BuyCall token (fixed_buy st) # bevs
                 @ [Sleep (fixed_sell_delay st), Sleep (rest_seconds st)]
          \<and> \<not> (\<exists>e \<in> set (snd (snd (cycle_body user_id wallet_kp token agent cenv s))).
                  is_sell_call e))"
proof -
  have a: "buy_token_jupiter env wallet_kp token a
            = (Inr (Some (sg, 0)), evs @ [SwapRequest wallet_kp (JObj kvs)])"
    if "\<not> to_lamports a < 100000"
       "jupiter_get_quote (quote_net env) SOL_MINT token (to_lamports a) DEFAULT_SLIPPAGE 5
           = (JObj kvs, evs)"
       "kvs \<noteq> []" "py_int (map_of kvs ''outAmount'') = None"
       "swap_result env = Some sg" "sg \<noteq> []"
    using that
    by (simp add: buy_token_jupiter_def jupiter_swap_def parse_out_amount_def truthy_sig_def)
  have b: "fst (cycle_body user_id wallet_kp token agent cenv s) = None
          \<and> agent_last_buy (fst (snd (cycle_body user_id wallet_kp token agent cenv s)))
             (user_id @ ''_'' @ agent) = Some 0
          \<and> snd (snd (cycle_body user_id wallet_kp token agent cenv s))
             = BuyCall token (fixed_buy st) # bevs
                 @ [Sleep (fixed_sell_delay st), Sleep (rest_seconds st)]
          \<and> \<not> (\<exists>e \<in> set (snd (snd (cycle_body user_id wallet_kp token agent cenv s))).
                  is_sell_call e)"
    if h: "settings_reply cenv = Inr st" "0 < fixed_buy st"
       "\<not> get_sol_balance (balance_reply cenv) < fixed_buy st"
       "buy_token_jupiter (buy_env cenv) wallet_kp token (fixed_buy st)
           = (Inr (Some (sg, 0)), bevs)"
       "sell_enabled st"
       "\<forall>k x. agent_last_buy (others cenv k x) = agent_last_buy x"
  proof -
    let ?key = "user_id @ ''_'' @ agent"
    have keep: "stored_amount_of (others cenv k x) key = stored_amount_of x key" for k x key
      using h(6) by (simp add: stored_amount_of_def)
    have sb: "sell_block wallet_kp token key st cenv (set_last_buy key 0 x)
        = (others cenv 6 (set_last_buy key 0 x), [Sleep (fixed_sell_delay st)])"
      for x key
      using h(5) by (simp add: sell_block_def Let_def keep set_last_buy_lookup)
    have cb: "cycle_body user_id wallet_kp token agent cenv s
        = (None,
           others cenv 8 (others cenv 6 (set_last_buy ?key 0
             (others cenv 4 (others cenv 2 (others cenv 0 s))))),
           BuyCall token (fixed_buy st) # bevs
             @ [Sleep (fixed_sell_delay st), Sleep (rest_seconds st)])"
      by (simp add: cycle_body_bought [OF h(1,2,3,4)] sb)
    have nosell: "\<not> is_sell_call e" if "e \<in> set bevs" for e
      using buy_token_jupiter_events [of e "buy_env cenv" wallet_kp token "fixed_buy st"]
        that h(4)
      by simp
    have "agent_last_buy (others cenv 8 (others cenv 6 (set_last_buy ?key 0
             (others cenv 4 (others cenv 2 (others cenv 0 s)))))) ?key = Some 0"
      using h(6) by (simp add: set_last_buy_def)
    with cb nosell show ?thesis by auto
  qed
  from a b show ?thesis by blast
qed

text \<open>
  C10 at a quote without \<^verbatim>\<open>outAmount\<close>: the buy succeeds with amount 0 and the
  pass ends without a sell.
\<close>

theorem buy_zero_output_is_untracked_witness:
  "buy_token_jupiter
     \<lparr>quote_net = always (Response \<lparr>status = 200, retry_after = None,
                    decoded = Decoded (JObj [(''routePlan'', JArr [JStr ''hop''])])\<rparr>),
      swap_result = Some ''sig''\<rparr>
     ''wallet'' ''token'' (float_literal (1 / 100))
   = (Inr (Some (''sig'', 0)),
      [QuoteRequest SOL_MINT ''token'' 10000000 2000,
       SwapRequest ''wallet'' (JObj [(''routePlan'', JArr [JStr ''hop''])])])
   \<and> snd (snd (cycle_body ''7'' ''wallet'' ''token'' ''A''
        \<lparr>settings_reply = Inr \<lparr>fixed_buy = float_literal (1 / 100), fixed_sell_delay = 30,
                                fixed_rest_delay = 0, sell_enabled = True\<rparr>,
         balance_reply = Some 20000000,
         buy_env = \<lparr>quote_net = always (Response \<lparr>status = 200, retry_after = None,
                       decoded = Decoded (JObj [(''routePlan'', JArr [JStr ''hop''])])\<rparr>),
                    swap_result = Some ''sig''\<rparr>,
         sell_env = \<lparr>quote_net = always Raised, swap_result = None\<rparr>,
         others = always id\<rparr>
        \<lparr>active_trading = Map.empty, agent_last_buy = Map.empty\<rparr>))
   = [BuyCall ''token'' (float_literal (1 / 100)),
      QuoteRequest SOL_MINT ''token'' 10000000 2000,
      SwapRequest ''wallet'' (JObj [(''routePlan'', JArr [JStr ''hop''])]),
      Sleep 30, Sleep 1]"
proof -
  let ?kvs = "[(''routePlan'', JArr [JStr ''hop''])]"
  let ?st = "\<lparr>fixed_buy = float_literal (1 / 100), fixed_sell_delay = 30,
              fixed_rest_delay = 0, sell_enabled = True\<rparr>"
  let ?env = "\<lparr>quote_net = always (Response \<lparr>status = 200, retry_after = None,
                    decoded = Decoded (JObj ?kvs)\<rparr>), swap_result = Some ''sig''\<rparr>"
  let ?cenv = "\<lparr>settings_reply = Inr ?st,
         balance_reply = Some 20000000, buy_env = ?env,
         sell_env = \<lparr>quote_net = always Raised, swap_result = None\<rparr>,
         others = always id\<rparr>"
  have l: "to_lamports (float_literal (1 / 100)) = 10000000" by code_simp
  have jq: "jupiter_get_quote (quote_net ?env) SOL_MINT ''token'' 10000000 DEFAULT_SLIPPAGE 5
      = (JObj ?kvs, [QuoteRequest SOL_MINT ''token'' 10000000 2000])"
    by code_simp
  have pos: "0 < float_literal (1 / 100)" by code_simp
  have bal: "\<not> get_sol_balance (Some 20000000) < float_literal (1 / 100)" by code_simp
  have buy: "buy_token_jupiter ?env ''wallet'' ''token'' (float_literal (1 / 100))
      = (Inr (Some (''sig'', 0)),
         [QuoteRequest SOL_MINT ''token'' 10000000 2000, SwapRequest ''wallet'' (JObj ?kvs)])"
    using buy_zero_output_is_untracked
      [where a = "float_literal (1 / 100)" and env = ?env and token = "''token''"
         and kvs = ?kvs and evs = "[QuoteRequest SOL_MINT ''token'' 10000000 2000]"
         and sg = "''sig''" and wallet_kp = "''wallet''", THEN conjunct1]
      l jq
    by simp
  show ?thesis
    using buy_zero_output_is_untracked
      [where cenv = ?cenv and st = ?st and token = "''token''" and sg = "''sig''"
         and wallet_kp = "''wallet''"
         and bevs = "[QuoteRequest SOL_MINT ''token'' 10000000 2000,
                      SwapRequest ''wallet'' (JObj ?kvs)]"
         and user_id = "''7''" and agent = "''A''"
         and s = "\<lparr>active_trading = Map.empty, agent_last_buy = Map.empty\<rparr>",
         THEN conjunct2]
      buy pos bal
    by (simp add: always_def rest_seconds_def)
qed

subsection \<open>The rest delay\<close>

text \<open>
  Claim C7. The rest delay \<^verbatim>\<open>fixed_rest_delay if fixed_rest_delay > 0 else 1\<close>
  is \<open>max fixed_rest_delay 1\<close> on the integer column, and every pass of the loop
  that gets past the buy raises nothing and ends with a sleep of that many seconds,
  after which the loop head is reached again.
\<close>

theorem resting_sleeps_max_delay:
  "rest_seconds st = max (fixed_rest_delay st) 1
   \<and> (settings_reply env = Inr st
      \<and> 0 < fixed_buy st
      \<and> \<not> get_sol_balance (balance_reply env) < fixed_buy st
      \<and> fst (buy_token_jupiter (buy_env env) wallet_kp token (fixed_buy st)) = Inr (Some r)
      \<longrightarrow> fst (cycle_body user_id wallet_kp token agent env s) = None
          \<and> last (snd (snd (cycle_body user_id wallet_kp token agent env s)))
            = Sleep (max (fixed_rest_delay st) 1))"
proof -
  have "fst (cycle_body user_id wallet_kp token agent env s) = None
          \<and> last (snd (snd (cycle_body user_id wallet_kp token agent env s)))
            = Sleep (max (fixed_rest_delay st) 1)"
    if h: "settings_reply env = Inr st" "0 < fixed_buy st"
      "\<not> get_sol_balance (balance_reply env) < fixed_buy st"
      "fst (buy_token_jupiter (buy_env env) wallet_kp token (fixed_buy st)) = Inr (Some r)"
  proof -
    obtain sg out bevs where
      "buy_token_jupiter (buy_env env) wallet_kp token (fixed_buy st)
         = (Inr (Some (sg, out)), bevs)"
      using h(4)
      by (cases "buy_token_jupiter (buy_env env) wallet_kp token (fixed_buy st)"; cases r) auto
    from cycle_body_bought [OF h(1,2,3) this] show ?thesis
      by (simp add: rest_seconds_max)
  qed
  then show ?thesis by (simp add: rest_seconds_max)
qed

text \<open>
  C7 at a pass with a successful buy and \<^verbatim>\<open>fixed_rest_delay = 0\<close>: the pass
  ends with a sleep of one second.
\<close>

theorem resting_sleeps_max_delay_witness:
  "last (snd (snd (cycle_body ''7'' ''wallet'' ''token'' ''A''
        \<lparr>settings_reply = Inr \<lparr>fixed_buy = float_literal (1 / 100), fixed_sell_delay = 30,
                                fixed_rest_delay = 0, sell_enabled = False\<rparr>,
         balance_reply = Some 20000000,
         buy_env = \<lparr>quote_net = always (Response \<lparr>status = 200, retry_after = None,
                       decoded = Decoded (JObj [(''routePlan'', JArr [JStr ''hop'']),
                                                (''outAmount'', JStr ''42'')])\<rparr>),
                    swap_result = Some ''sig''\<rparr>,
         sell_env = \<lparr>quote_net = always Raised, swap_result = None\<rparr>,
         others = always id\<rparr>
        \<lparr>active_trading = Map.empty, agent_last_buy = Map.empty\<rparr>)))
   = Sleep 1"
proof -
  let ?st = "\<lparr>fixed_buy = float_literal (1 / 100), fixed_sell_delay = 30,
              fixed_rest_delay = 0, sell_enabled = False\<rparr>"
  let ?env = "\<lparr>quote_net = always (Response \<lparr>status = 200, retry_after = None,
                       decoded = Decoded (JObj [(''routePlan'', JArr [JStr ''hop'']),
                                                (''outAmount'', JStr ''42'')])\<rparr>),
                    swap_result = Some ''sig''\<rparr>"
  have pos: "0 < float_literal (1 / 100)" by code_simp
  have bal: "\<not> get_sol_balance (Some 20000000) < float_literal (1 / 100)" by code_simp
  have buy: "fst (buy_token_jupiter ?env ''wallet'' ''token'' (float_literal (1 / 100)))
      = Inr (Some (''sig'', 42))"
    by code_simp
  show ?thesis
    using resting_sleeps_max_delay
      [where env = "\<lparr>settings_reply = Inr ?st,
         balance_reply = Some 20000000, buy_env = ?env,
         sell_env = \<lparr>quote_net = always Raised, swap_result = None\<rparr>,
         others = always id\<rparr>"
         and st = ?st
         and wallet_kp = "''wallet''" and token = "''token''" and r = "(''sig'', 42)"
         and user_id = "''7''" and agent = "''A''"
         and s = "\<lparr>active_trading = Map.empty, agent_last_buy = Map.empty\<rparr>",
         THEN conjunct2]
      pos bal buy
    by simp
qed

subsection \<open>The loop without a buy amount\<close>

lemma run_wallet_cycle_stopped:
  "\<not> is_active s user_id \<Longrightarrow>
   run_wallet_cycle user_id wallet_kp token agent envs s = (Exited, s, [])"
  by (cases envs) simp_all

lemma run_wallet_cycle_pass:
  "is_active s user_id \<Longrightarrow>
   fst (cycle_body user_id wallet_kp token agent env s) = None \<Longrightarrow>
   run_wallet_cycle user_id wallet_kp token agent (env # envs) s
   = (fst (run_wallet_cycle user_id wallet_kp token agent envs
             (fst (snd (cycle_body user_id wallet_kp token agent env s)))),
      fst (snd (run_wallet_cycle user_id wallet_kp token agent envs
             (fst (snd (cycle_body user_id wallet_kp token agent env s))))),
      snd (snd (cycle_body user_id wallet_kp token agent env s))
        @ snd (snd (run_wallet_cycle user_id wallet_kp token agent envs
             (fst (snd (cycle_body user_id wallet_kp token agent env s))))))"
  by (simp add: split_beta Let_def)


lemma run_no_buy_amount_events:
  "\<forall>env \<in> set envs. \<exists>st. settings_reply env = Inr st \<and> fixed_buy st \<le> 0 \<Longrightarrow>
   e \<in> set (snd (snd (run_wallet_cycle user_id wallet_kp token agent envs s))) \<Longrightarrow>
   e = Sleep 5"
proof (induction envs arbitrary: s)
  case Nil
  then show ?case by (simp split: if_splits)
next
  case (Cons env envs)
  show ?case
  proof (cases "is_active s user_id")
    case False
    with Cons.prems show ?thesis by (simp add: run_wallet_cycle_stopped)
  next
    case True
    from Cons.prems(1) obtain st where st: "settings_reply env = Inr st" "fixed_buy st \<le> 0"
      by auto
    note cb = cycle_body_no_buy_amount [OF st, of user_id wallet_kp token agent s]
    from Cons.prems(2) True
    have "e = Sleep 5 \<or> e \<in> set (snd (snd (run_wallet_cycle user_id wallet_kp token agent envs
             (fst (snd (cycle_body user_id wallet_kp token agent env s))))))"
      by (auto simp add: run_wallet_cycle_pass cb simp del: run_wallet_cycle.simps)
    with Cons.IH Cons.prems(1) show ?thesis by auto
  qed
qed

lemma run_no_buy_amount_forever:
  "\<forall>env \<in> set envs. (\<exists>st. settings_reply env = Inr st \<and> fixed_buy st \<le> 0)
      \<and> (\<forall>k x. is_active x user_id \<longrightarrow> is_active (others env k x) user_id) \<Longrightarrow>
   is_active s user_id \<Longrightarrow>
   fst (run_wallet_cycle user_id wallet_kp token agent envs s) = Running
   \<and> snd (snd (run_wallet_cycle user_id wallet_kp token agent envs s))
       = replicate (length envs) (Sleep 5)"
proof (induction envs arbitrary: s)
  case Nil
  then show ?case by simp
next
  case (Cons env envs)
  from Cons.prems(1) obtain st where st: "settings_reply env = Inr st" "fixed_buy st \<le> 0"
    and keep: "\<And>k x. is_active x user_id \<Longrightarrow> is_active (others env k x) user_id"
    by auto
  note cb = cycle_body_no_buy_amount [OF st, of user_id wallet_kp token agent s]
  have act: "is_active (fst (snd (cycle_body user_id wallet_kp token agent env s))) user_id"
    using Cons.prems(2) keep by (simp add: cb)
  from Cons.IH [OF _ act] Cons.prems(1)
  have "fst (run_wallet_cycle user_id wallet_kp token agent envs
               (fst (snd (cycle_body user_id wallet_kp token agent env s)))) = Running
        \<and> snd (snd (run_wallet_cycle user_id wallet_kp token agent envs
               (fst (snd (cycle_body user_id wallet_kp token agent env s)))))
            = replicate (length envs) (Sleep 5)"
    by simp
  then show ?case
    using Cons.prems(2)
    by (simp add: run_wallet_cycle_pass cb del: run_wallet_cycle.simps)
qed

text \<open>
  Claim C3. A pass whose settings have \<^verbatim>\<open>fixed_buy \<le> 0\<close> only sleeps 5 seconds:
  the controller itself writes nothing to the shared dictionaries and calls neither buy
  nor sell. While every pass reads \<^verbatim>\<open>fixed_buy \<le> 0\<close>, the trace of the loop holds
  nothing but sleeps of 5 seconds, and when no other task unsets the user's flag the loop
  is still running after any number of passes, one sleep per pass.
\<close>

theorem no_buy_without_fixed_buy:
  "(settings_reply env = Inr st \<and> fixed_buy st \<le> 0
      \<longrightarrow> cycle_body user_id wallet_kp token agent env s
            = (None, others env 1 (others env 0 s), [Sleep 5]))
   \<and> ((\<forall>env \<in> set envs. \<exists>st. settings_reply env = Inr st \<and> fixed_buy st \<le> 0)
      \<longrightarrow> (\<forall>e \<in> set (snd (snd (run_wallet_cycle user_id wallet_kp token agent envs s))).
             e = Sleep 5 \<and> \<not> is_buy_call e))
   \<and> ((\<forall>env \<in> set envs. (\<exists>st. settings_reply env = Inr st \<and> fixed_buy st \<le> 0)
          \<and> (\<forall>k x. is_active x user_id \<longrightarrow> is_active (others env k x) user_id))
       \<and> is_active s user_id
      \<longrightarrow> fst (run_wallet_cycle user_id wallet_kp token agent envs s) = Running
          \<and> snd (snd (run_wallet_cycle user_id wallet_kp token agent envs s))
              = replicate (length envs) (Sleep 5))"
proof -
  have a: "settings_reply env = Inr st \<and> fixed_buy st \<le> 0
      \<longrightarrow> cycle_body user_id wallet_kp token agent env s
            = (None, others env 1 (others env 0 s), [Sleep 5])"
    by (simp add: cycle_body_no_buy_amount)
  have b: "\<forall>e \<in> set (snd (snd (run_wallet_cycle user_id wallet_kp token agent envs s))).
             e = Sleep 5 \<and> \<not> is_buy_call e"
    if "\<forall>env \<in> set envs. \<exists>st. settings_reply env = Inr st \<and> fixed_buy st \<le> 0"
  proof
    fix e
    assume "e \<in> set (snd (snd (run_wallet_cycle user_id wallet_kp token agent envs s)))"
    from run_no_buy_amount_events [OF that this] show "e = Sleep 5 \<and> \<not> is_buy_call e"
      by simp
  qed
  have c: "fst (run_wallet_cycle user_id wallet_kp token agent envs s) = Running
          \<and> snd (snd (run_wallet_cycle user_id wallet_kp token agent envs s))
              = replicate (length envs) (Sleep 5)"
    if "\<forall>env \<in> set envs. (\<exists>st. settings_reply env = Inr st \<and> fixed_buy st \<le> 0)
          \<and> (\<forall>k x. is_active x user_id \<longrightarrow> is_active (others env k x) user_id)"
       "is_active s user_id"
    using run_no_buy_amount_forever [OF that] .
  from a b c show ?thesis by blast
qed

text \<open>
  C3 at two passes with \<^verbatim>\<open>fixed_buy\<close> 0 and -1 and a funded wallet.
\<close>

theorem no_buy_without_fixed_buy_witness:
  "fst (run_wallet_cycle ''7'' ''wallet'' ''token'' ''A''
     [\<lparr>settings_reply = Inr \<lparr>fixed_buy = 0, fixed_sell_delay = 30, fixed_rest_delay = 10,
                              sell_enabled = True\<rparr>,
       balance_reply = Some 20000000,
       buy_env = \<lparr>quote_net = always Raised, swap_result = None\<rparr>,
       sell_env = \<lparr>quote_net = always Raised, swap_result = None\<rparr>,
       others = always id\<rparr>,
      \<lparr>settings_reply = Inr \<lparr>fixed_buy = - 1, fixed_sell_delay = 30, fixed_rest_delay = 10,
                              sell_enabled = True\<rparr>,
       balance_reply = Some 20000000,
       buy_env = \<lparr>quote_net = always Raised, swap_result = None\<rparr>,
       sell_env = \<lparr>quote_net = always Raised, swap_result = None\<rparr>,
       others = always id\<rparr>]
     \<lparr>active_trading = [''7'' \<mapsto> True], agent_last_buy = Map.empty\<rparr>) = Running
   \<and> snd (snd (run_wallet_cycle ''7'' ''wallet'' ''token'' ''A''
     [\<lparr>settings_reply = Inr \<lparr>fixed_buy = 0, fixed_sell_delay = 30, fixed_rest_delay = 10,
                              sell_enabled = True\<rparr>,
       balance_reply = Some 20000000,
       buy_env = \<lparr>quote_net = always Raised, swap_result = None\<rparr>,
       sell_env = \<lparr>quote_net = always Raised, swap_result = None\<rparr>,
       others = always id\<rparr>,
      \<lparr>settings_reply = Inr \<lparr>fixed_buy = - 1, fixed_sell_delay = 30, fixed_rest_delay = 10,
                              sell_enabled = True\<rparr>,
       balance_reply = Some 20000000,
       buy_env = \<lparr>quote_net = always Raised, swap_result = None\<rparr>,
       sell_env = \<lparr>quote_net = always Raised, swap_result = None\<rparr>,
       others = always id\<rparr>]
     \<lparr>active_trading = [''7'' \<mapsto> True], agent_last_buy = Map.empty\<rparr>))
     = [Sleep 5, Sleep 5]"
proof -
  let ?e0 = "\<lparr>settings_reply = Inr \<lparr>fixed_buy = 0, fixed_sell_delay = 30,
                    fixed_rest_delay = 10, sell_enabled = True\<rparr>,
       balance_reply = Some 20000000,
       buy_env = \<lparr>quote_net = always Raised, swap_result = None\<rparr>,
       sell_env = \<lparr>quote_net = always Raised, swap_result = None\<rparr>,
       others = always id\<rparr>"
  let ?e1 = "\<lparr>settings_reply = Inr \<lparr>fixed_buy = - 1, fixed_sell_delay = 30,
                    fixed_rest_delay = 10, sell_enabled = True\<rparr>,
       balance_reply = Some 20000000,
       buy_env = \<lparr>quote_net = always Raised, swap_result = None\<rparr>,
       sell_env = \<lparr>quote_net = always Raised, swap_result = None\<rparr>,
       others = always id\<rparr>"
  let ?s = "\<lparr>active_trading = [''7'' \<mapsto> True], agent_last_buy = Map.empty\<rparr>"
  have act: "is_active ?s ''7''" by (simp add: is_active_def)
  have hyp: "\<forall>env \<in> set [?e0, ?e1]. (\<exists>st. settings_reply env = Inr st \<and> fixed_buy st \<le> 0)
          \<and> (\<forall>k x. is_active x ''7'' \<longrightarrow> is_active (others env k x) ''7'')"
    by (simp add: always_def)
  have len: "replicate (length [?e0, ?e1]) (Sleep 5) = [Sleep 5, Sleep 5]"
    by (simp add: numeral_2_eq_2)
  from no_buy_without_fixed_buy
      [where envs = "[?e0, ?e1]" and user_id = "''7''" and s = ?s and wallet_kp = "''wallet''"
         and token = "''token''" and agent = "''A''", THEN conjunct2, THEN conjunct2]
  have "fst (run_wallet_cycle ''7'' ''wallet'' ''token'' ''A'' [?e0, ?e1] ?s) = Running
      \<and> snd (snd (run_wallet_cycle ''7'' ''wallet'' ''token'' ''A'' [?e0, ?e1] ?s))
          = replicate (length [?e0, ?e1]) (Sleep 5)"
    using act hyp by blast
  then show ?thesis
    by (simp only: len)
qed

subsection \<open>When the sell is called\<close>






subsection \<open>The stop flag\<close>









section \<open>Properties of the fund transfers\<close>

subsection \<open>The sweep and its reserve\<close>

lemma MIN_BALANCE_value: "MIN_BALANCE = 1152921504606847 / 1152921504606846976"
  by code_simp

lemma collect_agent_insufficient:
  "decode_key env (base58_key agent) = Some agent_key \<Longrightarrow>
   get_sol_balance (balance_of env agent_key) \<le> MIN_BALANCE \<Longrightarrow>
   collect_agent env root_key agent
     = (''Agent '' @ show_name (agent_name agent) @ '': Insufficient balance'', [])"
  by (simp add: collect_agent_def)

lemma collect_agent_transfer:
  "decode_key env (base58_key agent) = Some agent_key \<Longrightarrow>
   MIN_BALANCE < get_sol_balance (balance_of env agent_key) \<Longrightarrow>
   snd (collect_agent env root_key agent)
     = [SendTransaction agent_key root_key
          (to_lamports (fl_sub (get_sol_balance (balance_of env agent_key)) MIN_BALANCE))]"
  by (simp add: collect_agent_def Let_def)

lemma collect_loop_events:
  "snd (collect_loop env root_key agents)
     = concat (map (\<lambda>agent. snd (collect_agent env root_key agent)) agents)"
  by (induction agents) (simp_all add: split_beta)

lemma collect_loop_lines:
  "fst (collect_loop env root_key agents)
     = map (\<lambda>agent. fst (collect_agent env root_key agent)) agents"
  by (induction agents) (simp_all add: split_beta)

lemma two_roundings_bound:
  fixes x d c u l :: rat
  assumes x: "0 < x" and u: "0 \<le> u" "u \<le> 1" and c: "0 \<le> c"
    and dx: "\<bar>d - x\<bar> \<le> x * u"
    and ld: "\<bar>l - d * c\<bar> < 1 + d * c * u"
  shows "\<bar>l - x * c\<bar> < 1 + x * c * (4 * u)"
proof -
  have xu: "x * u \<le> x" using x u mult_left_le [of u x] by (simp add: mult.commute)
  with dx have dle: "d \<le> 2 * x" by linarith
  have cu: "0 \<le> c * u" using c u by simp
  have "d * (c * u) \<le> (2 * x) * (c * u)"
    using dle cu by (rule mult_right_mono)
  then have e1: "d * c * u \<le> 2 * (x * c * u)" by (simp add: mult.assoc)
  have "\<bar>d - x\<bar> * c \<le> (x * u) * c"
    using dx c by (rule mult_right_mono)
  moreover have "\<bar>d * c - x * c\<bar> = \<bar>d - x\<bar> * c"
  proof -
    have "d * c - x * c = (d - x) * c" by (simp add: left_diff_distrib)
    then show ?thesis using c by (simp add: abs_mult)
  qed
  moreover have "(x * u) * c = x * c * u" by simp
  ultimately have e2: "\<bar>d * c - x * c\<bar> \<le> x * c * u" by simp
  have "\<bar>l - x * c\<bar> \<le> \<bar>l - d * c\<bar> + \<bar>d * c - x * c\<bar>" by linarith
  with ld e1 e2 have "\<bar>l - x * c\<bar> < 1 + 3 * (x * c * u)" by linarith
  moreover have "0 \<le> x * c * u" using x c u by simp
  ultimately have "\<bar>l - x * c\<bar> < 1 + 4 * (x * c * u)" by linarith
  then show ?thesis by (simp add: mult.assoc mult.commute mult.left_commute)
qed

lemma MIN_BALANCE_close: "\<bar>MIN_BALANCE - 1 / 1000\<bar> \<le> 1 / 10 ^ 19"
  by (simp add: MIN_BALANCE_value)

lemma sweep_lamports_error:
  assumes "MIN_BALANCE < balance"
  shows "\<bar>of_int (to_lamports (fl_sub balance MIN_BALANCE))
           - (balance - MIN_BALANCE) * 1000000000\<bar>
         < 1 + (balance - MIN_BALANCE) * 1000000000 / 2 ^ 51"
proof -
  define x where "x = balance - MIN_BALANCE"
  define d where "d = fl_sub balance MIN_BALANCE"
  define u :: rat where "u = 1 / 2 ^ 53"
  define c :: rat where "c = 1000000000"
  have x: "0 < x" using assms by (simp add: x_def)
  have u: "0 \<le> u" "u \<le> 1" by (simp_all add: u_def)
  have c: "0 \<le> c" by (simp add: c_def)
  have d0: "0 \<le> d" unfolding d_def fl_sub_def using assms by (intro fl_round_nonneg) simp
  have "\<bar>d - x\<bar> \<le> \<bar>x\<bar> / 2 ^ 53"
    unfolding d_def fl_sub_def x_def by (rule fl_round_error)
  moreover have "\<bar>x\<bar> / 2 ^ 53 = x * u" using x by (simp add: u_def)
  ultimately have dx: "\<bar>d - x\<bar> \<le> x * u" by simp
  have ld: "\<bar>of_int (to_lamports d) - d * c\<bar> < 1 + d * c * u"
    unfolding c_def u_def using to_lamports_error [OF d0] by simp
  have "\<bar>of_int (to_lamports d) - x * c\<bar> < 1 + x * c * (4 * u)"
    using x u c dx ld by (rule two_roundings_bound)
  then show ?thesis unfolding c_def u_def d_def x_def by simp
qed

lemma collect_agents_to_root_events:
  "find is_root wallets = Some root_wallet \<Longrightarrow>
   decode_key env (base58_key root_wallet) = Some root_key \<Longrightarrow>
   snd (collect_agents_to_root env wallets)
     = concat (map (\<lambda>agent. snd (collect_agent env root_key agent)) (filter is_agent wallets))"
  by (simp add: collect_agents_to_root_def Let_def collect_loop_events split_beta)

lemma sweep_example: "to_lamports (fl_sub (get_sol_balance (Some 10000000)) MIN_BALANCE) = 9000000"
  by code_simp

text \<open>
  Claim C8. In \<^verbatim>\<open>collect_agents_to_root\<close>, with \<^verbatim>\<open>MIN_BALANCE = 0.001\<close>, an
  agent whose key decodes and whose balance is at most the reserve is reported as
  \<^verbatim>\<open>Insufficient balance\<close> and no transfer is submitted for it. An agent whose balance
  exceeds the reserve has exactly one transfer submitted, to the root wallet, of
  \<^verbatim>\<open>int((balance - MIN_BALANCE) * 1_000_000_000)\<close> units, which is less than one
  unit plus the rounding of two double operations away from the difference. The
  transfers of a sweep are those of its agents, in order. The double
  \<^verbatim>\<open>0.001\<close> is within \<open>10\<^sup>-\<^sup>1\<^sup>9\<close> of one thousandth, and a balance of
  10,000,000 units (0.01) gives a transfer of 9,000,000 units (0.009).
\<close>

theorem sweep_keeps_min_reserve:
  "(decode_key env (base58_key agent) = Some agent_key
      \<and> get_sol_balance (balance_of env agent_key) \<le> MIN_BALANCE
      \<longrightarrow> collect_agent env root_key agent
            = (''Agent '' @ show_name (agent_name agent) @ '': Insufficient balance'', []))
   \<and> (decode_key env (base58_key agent) = Some agent_key
      \<and> MIN_BALANCE < get_sol_balance (balance_of env agent_key)
      \<longrightarrow> snd (collect_agent env root_key agent)
            = [SendTransaction agent_key root_key
                 (to_lamports (fl_sub (get_sol_balance (balance_of env agent_key)) MIN_BALANCE))]
          \<and> \<bar>of_int (to_lamports
                         (fl_sub (get_sol_balance (balance_of env agent_key)) MIN_BALANCE))
               - (get_sol_balance (balance_of env agent_key) - MIN_BALANCE) * 1000000000\<bar>
             < 1 + (get_sol_balance (balance_of env agent_key) - MIN_BALANCE) * 1000000000
                     / 2 ^ 51)
   \<and> (find is_root wallets = Some root_wallet
      \<and> decode_key env (base58_key root_wallet) = Some root_key
      \<longrightarrow> snd (collect_agents_to_root env wallets)
            = concat (map (\<lambda>agent. snd (collect_agent env root_key agent))
                        (filter is_agent wallets)))
   \<and> \<bar>MIN_BALANCE - 1 / 1000\<bar> \<le> 1 / 10 ^ 19
   \<and> to_lamports (fl_sub (get_sol_balance (Some 10000000)) MIN_BALANCE) = 9000000"
  using collect_agent_insufficient [of env agent agent_key root_key]
    collect_agent_transfer [of env agent agent_key root_key]
    sweep_lamports_error [of "get_sol_balance (balance_of env agent_key)"]
    collect_agents_to_root_events [of wallets root_wallet env root_key]
    MIN_BALANCE_close sweep_example
  by blast

text \<open>
  C8 at an agent holding 0.01 and at an agent holding exactly the reserve.
\<close>

theorem sweep_keeps_min_reserve_witness:
  "snd (collect_agent
          \<lparr>decode_key = Some, balance_of = always (Some 10000000), send_ok = always True\<rparr>
          ''root''
          \<lparr>wallet_index = 1, base58_key = ''k1'', is_root = False, is_agent = True,
            agent_name = Some ''A''\<rparr>)
     = [SendTransaction ''k1'' ''root'' 9000000]
   \<and> collect_agent
          \<lparr>decode_key = Some, balance_of = always (Some 1000000), send_ok = always True\<rparr>
          ''root''
          \<lparr>wallet_index = 1, base58_key = ''k1'', is_root = False, is_agent = True,
            agent_name = Some ''A''\<rparr>
     = (''Agent A: Insufficient balance'', [])"
proof -
  let ?a = "\<lparr>wallet_index = 1, base58_key = ''k1'', is_root = False, is_agent = True,
            agent_name = Some ''A''\<rparr>"
  let ?rich = "\<lparr>decode_key = Some, balance_of = always (Some 10000000),
                 send_ok = always True\<rparr>"
  let ?poor = "\<lparr>decode_key = Some, balance_of = always (Some 1000000),
                 send_ok = always True\<rparr>"
  have above: "MIN_BALANCE < get_sol_balance (Some 10000000)" by code_simp
  have below: "get_sol_balance (Some 1000000) \<le> MIN_BALANCE" by code_simp
  have ex: "to_lamports (fl_sub (get_sol_balance (Some 10000000)) MIN_BALANCE) = 9000000"
    by code_simp
  show ?thesis
    using
      sweep_keeps_min_reserve
        [where env = ?rich and agent = ?a and agent_key = "''k1''" and root_key = "''root''"]
      sweep_keeps_min_reserve
        [where env = ?poor and agent = ?a and agent_key = "''k1''" and root_key = "''root''"]
      above below ex
    by (simp add: always_def show_name_def)
qed

subsection \<open>A key that does not decode\<close>

text \<open>
  Claim C9 does not hold for \<^verbatim>\<open>load_all_agents\<close>. The root wallet and two
  agents are stored, and the key of the first agent does not decode. The sweep reports
  the decode error on its own line and goes on to the second agent;
  \<^verbatim>\<open>load_all_agents\<close> decodes the key outside its \<^verbatim>\<open>try\<close>, so the exception
  leaves the function: the second agent is never processed and no report is returned.
\<close>

theorem load_all_agents_aborts_on_bad_agent_key:
  "load_all_agents
     \<lparr>decode_key = decode_unless ''bad0key'', balance_of = always None, send_ok = always True\<rparr>
     [\<lparr>wallet_index = 0, base58_key = ''rootkey'', is_root = True, is_agent = False,
        agent_name = None\<rparr>,
      \<lparr>wallet_index = 1, base58_key = ''bad0key'', is_root = False, is_agent = True,
        agent_name = Some ''A''\<rparr>,
      \<lparr>wallet_index = 2, base58_key = ''goodkey'', is_root = False, is_agent = True,
        agent_name = Some ''B''\<rparr>]
     (float_literal (1 / 10))
   = (Inl ValueError, [])
   \<and> collect_agents_to_root
     \<lparr>decode_key = decode_unless ''bad0key'', balance_of = always None, send_ok = always True\<rparr>
     [\<lparr>wallet_index = 0, base58_key = ''rootkey'', is_root = True, is_agent = False,
        agent_name = None\<rparr>,
      \<lparr>wallet_index = 1, base58_key = ''bad0key'', is_root = False, is_agent = True,
        agent_name = Some ''A''\<rparr>,
      \<lparr>wallet_index = 2, base58_key = ''goodkey'', is_root = False, is_agent = True,
        agent_name = Some ''B''\<rparr>]
   = (''Agent A: Key decode error'' @ [CHR 0x0A] @ ''Agent B: Insufficient balance'', [])"
  by code_simp

end
